theory Spec2Isabelle
  imports Complex_Main "HOL-Library.Word" "HOL-Library.Log_Nat"
begin

section \<open>JavaScript values\<close>

subsection \<open>Numbers\<close>

text \<open>
  A JavaScript number is an IEEE-754 binary64 value. A finite one is represented by the
  rational it denotes (the two zeros are identified), next to NaN and the two infinities.
\<close>

datatype jsnum = Fin rat | NaN | PosInf | NegInf

definition pow2 :: "int \<Rightarrow> rat" where
  "pow2 k = (if 0 \<le> k then 2 ^ nat k else 1 / 2 ^ nat (- k))"

text \<open>\<open>ilog2 q\<close> is the integer \<open>k\<close> with \<open>2^k \<le> q < 2^(k+1)\<close>, for positive \<open>q\<close>.\<close>

definition ilog2 :: "rat \<Rightarrow> int" where
  "ilog2 q =
     (let (n, d) = quotient_of q;
          k = bitlen n - bitlen d
      in if pow2 k \<le> q then k else k - 1)"

definition round_half_even :: "rat \<Rightarrow> int" where
  "round_half_even r =
     (let f = \<lfloor>r\<rfloor>; d = r - of_int f
      in if d < 1 / 2 then f else if 1 / 2 < d then f + 1
         else if even f then f else f + 1)"

text \<open>
  Rounding of an exact result to binary64, to nearest with ties to even: a significand of
  53 bits, the least exponent \<open>-1074\<close> (subnormal numbers), and infinity once the rounded
  value exceeds \<open>(2^53 - 1) * 2^971\<close>.
\<close>

definition js_round :: "rat \<Rightarrow> jsnum" where
  "js_round q =
     (if q = 0 then Fin 0
      else let a = \<bar>q\<bar>;
               e = max (ilog2 a - 52) (- 1074);
               m = round_half_even (a / pow2 e)
           in if 971 < e \<or> (e = 971 \<and> 2 ^ 53 \<le> m) then (if 0 < q then PosInf else NegInf)
              else Fin (if 0 < q then of_int m * pow2 e else - (of_int m * pow2 e)))"

text \<open>The operator \<open>*\<close> on two numbers.\<close>

fun js_mul :: "jsnum \<Rightarrow> jsnum \<Rightarrow> jsnum" where
  "js_mul (Fin a) (Fin b) = js_round (a * b)"
| "js_mul NaN _ = NaN"
| "js_mul _ NaN = NaN"
| "js_mul (Fin a) PosInf = (if a = 0 then NaN else if 0 < a then PosInf else NegInf)"
| "js_mul (Fin a) NegInf = (if a = 0 then NaN else if 0 < a then NegInf else PosInf)"
| "js_mul PosInf (Fin b) = (if b = 0 then NaN else if 0 < b then PosInf else NegInf)"
| "js_mul NegInf (Fin b) = (if b = 0 then NaN else if 0 < b then NegInf else PosInf)"
| "js_mul PosInf PosInf = PosInf"
| "js_mul PosInf NegInf = NegInf"
| "js_mul NegInf PosInf = NegInf"
| "js_mul NegInf NegInf = PosInf"

text \<open>The operator \<open>/\<close> with a finite divisor other than zero.\<close>

fun js_div :: "jsnum \<Rightarrow> rat \<Rightarrow> jsnum" where
  "js_div (Fin a) d = js_round (a / d)"
| "js_div NaN d = NaN"
| "js_div PosInf d = (if 0 < d then PosInf else NegInf)"
| "js_div NegInf d = (if 0 < d then NegInf else PosInf)"

text \<open>\<open>Number(b)\<close> for a BigInt \<open>b\<close>.\<close>

definition Number_of_bigint :: "int \<Rightarrow> jsnum" where
  "Number_of_bigint b = js_round (of_int b)"

text \<open>\<open>Math.pow(10, 9)\<close> and \<open>10**9\<close>: the number 1000000000, which binary64 holds exactly.\<close>

definition ten_pow_9 :: jsnum where
  "ten_pow_9 = Fin (10 ^ 9)"

subsection \<open>Values\<close>

datatype jsval =
    JUndefined
  | JNull
  | JBool bool
  | JNum jsnum
  | JStr string
  | JArr "jsval list"
  | JObj "(string \<times> jsval) list"

text \<open>
  A property of a response from the SDK that may be missing (\<open>undefined\<close>), \<open>null\<close>
  or present.
\<close>

datatype 'a js_field = Undefined | Null | Value 'a

text \<open>A thrown \<open>Error\<close> object; the routes read its \<open>message\<close>.\<close>

datatype error = Error (message: string)

section \<open>Asynchronous calls\<close>

text \<open>
  Everything outside this program (the chain behind the RPC endpoint, the random source of
  \<open>Keypair.generate\<close>) is a world of type \<open>'w\<close>. An asynchronous call takes the world,
  resolves to a value or rejects with an error, and leaves a new world.
\<close>

type_synonym ('a, 'w) io = "'w \<Rightarrow> (error + 'a) \<times> 'w"

definition resolve :: "'a \<Rightarrow> ('a, 'w) io" where
  "resolve x = (\<lambda>w. (Inr x, w))"

definition throw :: "error \<Rightarrow> ('a, 'w) io" where
  "throw e = (\<lambda>w. (Inl e, w))"

text \<open>\<open>const x = await m; f x\<close>: a rejection of \<open>m\<close> skips the rest.\<close>

definition await :: "('a, 'w) io \<Rightarrow> ('a \<Rightarrow> ('b, 'w) io) \<Rightarrow> ('b, 'w) io" where
  "await m f = (\<lambda>w. case m w of (Inl e, w') \<Rightarrow> (Inl e, w') | (Inr x, w') \<Rightarrow> f x w')"

text \<open>\<open>const x = c; f x\<close> for a synchronous call \<open>c\<close> that may throw.\<close>

definition call :: "error + 'a \<Rightarrow> ('a \<Rightarrow> ('b, 'w) io) \<Rightarrow> ('b, 'w) io" where
  "call c f = (case c of Inl e \<Rightarrow> throw e | Inr x \<Rightarrow> f x)"

text \<open>\<open>try { m } catch (e) { h e }\<close>\<close>

definition try_catch :: "('a, 'w) io \<Rightarrow> (error \<Rightarrow> ('a, 'w) io) \<Rightarrow> ('a, 'w) io" where
  "try_catch m h = (\<lambda>w. case m w of (Inl e, w') \<Rightarrow> h e w' | (Inr x, w') \<Rightarrow> (Inr x, w'))"

section \<open>The SDK\<close>

subsection \<open>Its data\<close>

type_synonym bytes = "8 word list"

datatype pubkey = PublicKey (toBuffer: bytes)

record Keypair =
  publicKey :: pubkey
  secretKey :: bytes

text \<open>Anchor's \<open>Wallet\<close>: its \<open>publicKey\<close> is the public key of its \<open>payer\<close>.\<close>

record Wallet =
  payer :: Keypair

definition wallet_publicKey :: "Wallet \<Rightarrow> pubkey" where
  "wallet_publicKey w = publicKey (payer w)"

record Connection =
  rpcEndpoint :: string
  commitment :: string
  maxSupportedTransactionVersion :: "nat option"

record AnchorProvider =
  provider_connection :: Connection
  wallet :: Wallet
  provider_commitment :: string

record Program =
  programId :: pubkey
  provider :: AnchorProvider

record AccountMeta =
  pubkey :: pubkey
  isSigner :: bool
  isWritable :: bool

record TransactionInstruction =
  keys :: "AccountMeta list"
  ix_programId :: pubkey
  data :: bytes

text \<open>A \<open>Transaction\<close> is the list of the instructions added to it.\<close>

type_synonym Transaction = "TransactionInstruction list"

datatype ExtensionType = TransferHook

record CreateAccountParams =
  fromPubkey :: pubkey
  newAccountPubkey :: pubkey
  space :: nat
  lamports :: jsnum
  owner_programId :: pubkey

record ExtraAccountMetaListAccounts =
  eam_payer :: pubkey
  eam_mint :: pubkey
  extraAccountMetaList :: pubkey
  eam_systemProgram :: pubkey

record IssueBadgeAccounts =
  authority :: pubkey
  user :: pubkey
  tokenBadge :: pubkey
  ib_systemProgram :: pubkey

text \<open>A token account as \<open>getAccount\<close> unpacks it; \<open>amount\<close> is a BigInt read from 64 bits.\<close>

record Account =
  address :: pubkey
  mint :: pubkey
  amount :: "64 word"

record Mint =
  decimals :: nat
  transferHookProgramId :: "pubkey js_field"

text \<open>
  The error of a confirmed signature is \<open>null\<close> or the RPC's description of the failure
  (a non-empty string or an object), which is truthy.
\<close>

datatype TransactionError = TransactionError string

record ConfirmedSignatureInfo =
  signature :: string
  blockTime :: "jsnum js_field"
  err :: "TransactionError option"

datatype TransactionResponse = TransactionResponse (slot: nat)

subsection \<open>Its operations\<close>

text \<open>
  The functions of \<open>@solana/web3.js\<close>, \<open>@solana/spl-token\<close> and
  \<open>@coral-xyz/anchor\<close> that the service calls, and three built-ins of the JavaScript
  runtime, as parameters: the program is verified for every SDK. A constructor or a
  synchronous function that may throw returns \<open>error + 'a\<close>; an asynchronous one is an
  \<open>io\<close> over the world.
\<close>

record 'w SDK =
  newPublicKey :: "jsval \<Rightarrow> error + pubkey"
  PublicKey_toString :: "pubkey \<Rightarrow> string"
  findProgramAddressSync :: "bytes list \<Rightarrow> pubkey \<Rightarrow> error + (pubkey \<times> nat)"
  Keypair_generate :: "'w \<Rightarrow> Keypair \<times> 'w"
  Keypair_fromSecretKey :: "bytes \<Rightarrow> error + Keypair"
  newConnection :: "string \<Rightarrow> string \<Rightarrow> nat option \<Rightarrow> error + Connection"
  TOKEN_2022_PROGRAM_ID :: pubkey
  SystemProgram_programId :: pubkey
  getMintLen :: "ExtensionType list \<Rightarrow> nat"
  SystemProgram_createAccount :: "CreateAccountParams \<Rightarrow> TransactionInstruction"
  createInitializeTransferHookInstruction ::
    "pubkey \<Rightarrow> pubkey \<Rightarrow> pubkey \<Rightarrow> pubkey \<Rightarrow> TransactionInstruction"
  createInitializeMintInstruction ::
    "pubkey \<Rightarrow> nat \<Rightarrow> pubkey \<Rightarrow> pubkey option \<Rightarrow> pubkey \<Rightarrow> TransactionInstruction"
  getMinimumBalanceForRentExemption :: "Connection \<Rightarrow> nat \<Rightarrow> (jsnum, 'w) io"
  sendAndConfirm :: "AnchorProvider \<Rightarrow> Transaction \<Rightarrow> Keypair list \<Rightarrow> (string, 'w) io"
  initializeExtraAccountMetaList_rpc ::
    "Program \<Rightarrow> ExtraAccountMetaListAccounts \<Rightarrow> (string, 'w) io"
  issueBadge_rpc :: "Program \<Rightarrow> IssueBadgeAccounts \<Rightarrow> (string, 'w) io"
  getOrCreateAssociatedTokenAccount ::
    "Connection \<Rightarrow> Keypair \<Rightarrow> pubkey \<Rightarrow> pubkey \<Rightarrow> bool \<Rightarrow> string \<Rightarrow> pubkey \<Rightarrow> (Account, 'w) io"
  createTransferCheckedWithTransferHookInstruction ::
    "Connection \<Rightarrow> pubkey \<Rightarrow> pubkey \<Rightarrow> pubkey \<Rightarrow> pubkey \<Rightarrow> jsnum \<Rightarrow> nat \<Rightarrow> Keypair list
       \<Rightarrow> string \<Rightarrow> pubkey \<Rightarrow> (TransactionInstruction, 'w) io"
  transfer ::
    "Connection \<Rightarrow> Keypair \<Rightarrow> pubkey \<Rightarrow> pubkey \<Rightarrow> pubkey \<Rightarrow> jsnum \<Rightarrow> Keypair list
       \<Rightarrow> pubkey \<Rightarrow> (string, 'w) io"
  getTokenAccountsByOwner :: "Connection \<Rightarrow> pubkey \<Rightarrow> pubkey \<Rightarrow> (pubkey list, 'w) io"
  getAccount :: "Connection \<Rightarrow> pubkey \<Rightarrow> string \<Rightarrow> pubkey \<Rightarrow> (Account, 'w) io"
  getMint :: "Connection \<Rightarrow> pubkey \<Rightarrow> string \<Rightarrow> pubkey \<Rightarrow> (Mint, 'w) io"
  getSignaturesForAddress :: "Connection \<Rightarrow> pubkey \<Rightarrow> nat \<Rightarrow> (ConfirmedSignatureInfo list, 'w) io"
  getTransaction ::
    "Connection \<Rightarrow> string \<Rightarrow> string \<Rightarrow> nat option \<Rightarrow> (TransactionResponse option, 'w) io"
  getBalance :: "Connection \<Rightarrow> pubkey \<Rightarrow> (jsnum, 'w) io"
  ToNumber_string_or_object :: "jsval \<Rightarrow> jsnum"
  JSON_parse :: "string \<Rightarrow> error + jsval"
  newUint8Array :: "jsval \<Rightarrow> error + bytes"

text \<open>
  \<open>getTokenAccountsByOwner\<close> stands for the \<open>pubkey\<close>s of the entries of the response's
  \<open>value\<close>, the only part the program reads; \<open>getSignaturesForAddress\<close> takes the
  \<open>limit\<close> of its options, \<open>getTransaction\<close> the \<open>commitment\<close> and the
  \<open>maxSupportedTransactionVersion\<close> of its options. The empty \<open>confirmOptions\<close>
  object of \<open>getOrCreateAssociatedTokenAccount\<close> and \<open>transfer\<close> is left out.
\<close>

text \<open>A call that cannot fail, such as \<open>Keypair.generate()\<close>.\<close>

definition total :: "('w \<Rightarrow> 'a \<times> 'w) \<Rightarrow> ('a, 'w) io" where
  "total f = (\<lambda>w. case f w of (x, w') \<Rightarrow> (Inr x, w'))"

text \<open>\<open>Buffer.from(s)\<close> for an ASCII string literal.\<close>

definition Buffer_from :: "string \<Rightarrow> bytes" where
  "Buffer_from s = map (\<lambda>c. of_nat (of_char c)) s"

text \<open>The conversion the operator \<open>*\<close> applies to an operand.\<close>

definition ToNumber :: "'w SDK \<Rightarrow> jsval \<Rightarrow> jsnum" where
  "ToNumber sdk v =
     (case v of
        JUndefined \<Rightarrow> NaN
      | JNull \<Rightarrow> Fin 0
      | JBool b \<Rightarrow> Fin (if b then 1 else 0)
      | JNum n \<Rightarrow> n
      | _ \<Rightarrow> ToNumber_string_or_object sdk v)"

text \<open>The same conversion on a property of an SDK response that holds a number.\<close>

definition field_ToNumber :: "jsnum js_field \<Rightarrow> jsnum" where
  "field_ToNumber f = (case f of Undefined \<Rightarrow> NaN | Null \<Rightarrow> Fin 0 | Value n \<Rightarrow> n)"

text \<open>Every object is truthy.\<close>

definition truthy_object :: "'a \<Rightarrow> bool" where
  "truthy_object x = True"

text \<open>A string of \<open>process.env\<close> is truthy when it is set and not empty.\<close>

definition truthy_env :: "string option \<Rightarrow> bool" where
  "truthy_env v = (case v of None \<Rightarrow> False | Some s \<Rightarrow> s \<noteq> [])"

section \<open>Module constants\<close>

record process_env =
  RPC_URL :: "string option"
  SERVER_WALLET_SECRET_KEY :: "string option"

text \<open>
  \<open>TRANSFER_HOOK_PROGRAM_ID\<close> is the public key built from \<open>idl.metadata.address\<close>; the
  IDL file is not part of the sources, so the key is a parameter.
\<close>

record globals =
  env :: process_env
  TRANSFER_HOOK_PROGRAM_ID :: pubkey

definition RPC_ENDPOINT :: "globals \<Rightarrow> string" where
  "RPC_ENDPOINT g =
     (if truthy_env (RPC_URL (env g)) then the (RPC_URL (env g))
      else ''https://api.devnet.solana.com'')"

section \<open>The service\<close>

record SolanaService =
  connection :: Connection
  program :: Program

text \<open>
  The constructor; \<open>catch (error) { throw error }\<close> rethrows what it caught. The
  \<open>Wallet\<close>, \<open>AnchorProvider\<close> and \<open>Program\<close> objects are the records of what they
  were built from.
\<close>

definition SolanaService_new :: "'w SDK \<Rightarrow> globals \<Rightarrow> error + SolanaService" where
  "SolanaService_new sdk g =
     (case newConnection sdk (RPC_ENDPOINT g) ''confirmed'' (Some 0) of
        Inl e \<Rightarrow> Inl e
      | Inr conn \<Rightarrow>
          if \<not> truthy_env (SERVER_WALLET_SECRET_KEY (env g))
          then Inl (Error ''SERVER_WALLET_SECRET_KEY environment variable is not set.'')
          else
            (case JSON_parse sdk (the (SERVER_WALLET_SECRET_KEY (env g))) of
               Inl e \<Rightarrow> Inl e
             | Inr parsed \<Rightarrow>
                 (case newUint8Array sdk parsed of
                    Inl e \<Rightarrow> Inl e
                  | Inr secret \<Rightarrow>
                      (case Keypair_fromSecretKey sdk secret of
                         Inl e \<Rightarrow> Inl e
                       | Inr serverKeypair \<Rightarrow>
                           Inr \<lparr>connection = conn,
                                program = \<lparr>programId = TRANSFER_HOOK_PROGRAM_ID g,
                                  provider = \<lparr>provider_connection = conn,
                                    wallet = \<lparr>payer = serverKeypair\<rparr>,
                                    provider_commitment = ''confirmed''\<rparr>\<rparr>\<rparr>))))"

subsection \<open>createTokenMint\<close>

definition createTokenMint :: "'w SDK \<Rightarrow> SolanaService \<Rightarrow> (string, 'w) io" where
  "createTokenMint sdk this =
     await (total (Keypair_generate sdk)) (\<lambda>mintKeypair.
     let extensions = [TransferHook];
         mintLen = getMintLen sdk extensions
     in
     await (getMinimumBalanceForRentExemption sdk (connection this) mintLen) (\<lambda>lamports.
     let transaction =
           [SystemProgram_createAccount sdk
              \<lparr>fromPubkey = wallet_publicKey (wallet (provider (program this))),
               newAccountPubkey = publicKey mintKeypair,
               space = mintLen,
               lamports = lamports,
               owner_programId = TOKEN_2022_PROGRAM_ID sdk\<rparr>,
            createInitializeTransferHookInstruction sdk
              (publicKey mintKeypair)
              (wallet_publicKey (wallet (provider (program this))))
              (programId (program this))
              (TOKEN_2022_PROGRAM_ID sdk),
            createInitializeMintInstruction sdk
              (publicKey mintKeypair)
              9
              (wallet_publicKey (wallet (provider (program this))))
              None
              (TOKEN_2022_PROGRAM_ID sdk)]
     in
     await (sendAndConfirm sdk (provider (program this)) transaction [mintKeypair]) (\<lambda>_.
     call (findProgramAddressSync sdk
             [Buffer_from ''extra-account-metas'', toBuffer (publicKey mintKeypair)]
             (programId (program this))) (\<lambda>(extraAccountMetaListPDA, _).
     await (initializeExtraAccountMetaList_rpc sdk (program this)
              \<lparr>eam_payer = wallet_publicKey (wallet (provider (program this))),
               eam_mint = publicKey mintKeypair,
               extraAccountMetaList = extraAccountMetaListPDA,
               eam_systemProgram = SystemProgram_programId sdk\<rparr>) (\<lambda>_.
     resolve (PublicKey_toString sdk (publicKey mintKeypair)))))))"

subsection \<open>issueBadge\<close>

definition issueBadge :: "'w SDK \<Rightarrow> SolanaService \<Rightarrow> jsval \<Rightarrow> jsval \<Rightarrow> (unit, 'w) io" where
  "issueBadge sdk this mintAddress recipientAddress =
     await
       (try_catch
          (call (newPublicKey sdk mintAddress) (\<lambda>mint.
           call (newPublicKey sdk recipientAddress) (\<lambda>recipient.
           resolve (mint, recipient))))
          (\<lambda>e. throw (Error (''Invalid public key input: '' @ message e))))
       (\<lambda>(mint, recipient).
     call (findProgramAddressSync sdk
             [Buffer_from ''token-badge'', toBuffer recipient]
             (programId (program this))) (\<lambda>(tokenBadgePDA, _).
     await (issueBadge_rpc sdk (program this)
              \<lparr>authority = wallet_publicKey (wallet (provider (program this))),
               user = recipient,
               tokenBadge = tokenBadgePDA,
               ib_systemProgram = SystemProgram_programId sdk\<rparr>) (\<lambda>_.
     resolve ())))"

subsection \<open>transferTokens\<close>

text \<open>
  The two \<open>keys.push\<close> calls on the instruction the SDK returned are the two updates of
  \<open>keys\<close>.
\<close>

definition transferTokens ::
  "'w SDK \<Rightarrow> globals \<Rightarrow> SolanaService \<Rightarrow> jsval \<Rightarrow> jsval \<Rightarrow> jsval \<Rightarrow> (unit, 'w) io" where
  "transferTokens sdk g this mintAddress recipientAddress amount_arg =
     call (newPublicKey sdk mintAddress) (\<lambda>mint.
     call (newPublicKey sdk recipientAddress) (\<lambda>recipient.
     let authority = wallet_publicKey (wallet (provider (program this))) in
     await (getOrCreateAssociatedTokenAccount sdk
              (connection this)
              (payer (wallet (provider (program this))))
              mint
              authority
              False
              ''confirmed''
              (TOKEN_2022_PROGRAM_ID sdk)) (\<lambda>sourceATA.
     await (getOrCreateAssociatedTokenAccount sdk
              (connection this)
              (payer (wallet (provider (program this))))
              mint
              recipient
              False
              ''confirmed''
              (TOKEN_2022_PROGRAM_ID sdk)) (\<lambda>destinationATA.
     call (findProgramAddressSync sdk
             [Buffer_from ''extra-account-metas'', toBuffer mint]
             (programId (program this))) (\<lambda>(extraAccountMetaListPDA, _).
     await (createTransferCheckedWithTransferHookInstruction sdk
              (connection this)
              (address sourceATA)
              mint
              (address destinationATA)
              authority
              (js_mul (ToNumber sdk amount_arg) ten_pow_9)
              9
              []
              ''confirmed''
              (TOKEN_2022_PROGRAM_ID sdk)) (\<lambda>transferInstruction.
     let transferInstruction = transferInstruction
           \<lparr>keys := keys transferInstruction @
              [\<lparr>pubkey = TRANSFER_HOOK_PROGRAM_ID g, isSigner = False, isWritable = False\<rparr>]\<rparr>;
         transferInstruction = transferInstruction
           \<lparr>keys := keys transferInstruction @
              [\<lparr>pubkey = extraAccountMetaListPDA, isSigner = False, isWritable = False\<rparr>]\<rparr>;
         transaction = [transferInstruction]
     in
     await (sendAndConfirm sdk (provider (program this)) transaction
              [payer (wallet (provider (program this)))]) (\<lambda>_.
     resolve ())))))))"

subsection \<open>getTokenBalances\<close>

text \<open>The \<open>for ... of\<close> loop over \<open>tokenAccounts.value\<close>, with the array it pushes to.\<close>

fun getTokenBalances_loop ::
  "'w SDK \<Rightarrow> SolanaService \<Rightarrow> pubkey list \<Rightarrow> jsval list \<Rightarrow> (jsval list, 'w) io" where
  "getTokenBalances_loop sdk this [] balances = resolve balances"
| "getTokenBalances_loop sdk this (account # rest) balances =
     await (getAccount sdk (connection this) account ''confirmed'' (TOKEN_2022_PROGRAM_ID sdk))
       (\<lambda>accountInfo.
     await (getMint sdk (connection this) (mint accountInfo) ''confirmed''
              (TOKEN_2022_PROGRAM_ID sdk)) (\<lambda>mintInfo.
     getTokenBalances_loop sdk this rest
       (balances @
          [JObj [(''mint'', JStr (PublicKey_toString sdk (mint accountInfo))),
                 (''amount'', JNum (Number_of_bigint (uint (amount accountInfo)))),
                 (''decimals'', JNum (Fin (of_nat (decimals mintInfo)))),
                 (''isTransferHookEnabled'', JBool (transferHookProgramId mintInfo \<noteq> Null)),
                 (''symbol'', JStr [])]])))"

definition getTokenBalances :: "'w SDK \<Rightarrow> SolanaService \<Rightarrow> jsval \<Rightarrow> (jsval list, 'w) io" where
  "getTokenBalances sdk this ownerAddress =
     call (newPublicKey sdk ownerAddress) (\<lambda>ownerPublicKey.
     await (getTokenAccountsByOwner sdk (connection this) ownerPublicKey
              (TOKEN_2022_PROGRAM_ID sdk)) (\<lambda>tokenAccounts.
     getTokenBalances_loop sdk this tokenAccounts []))"

subsection \<open>getTransactions\<close>

fun getTransactions_loop ::
  "'w SDK \<Rightarrow> SolanaService \<Rightarrow> ConfirmedSignatureInfo list \<Rightarrow> jsval list \<Rightarrow> (jsval list, 'w) io"
  where
  "getTransactions_loop sdk this [] transactions = resolve transactions"
| "getTransactions_loop sdk this (sigInfo # rest) transactions =
     await (getTransaction sdk (connection this) (signature sigInfo) ''confirmed'' (Some 0))
       (\<lambda>tx.
     if tx \<noteq> None
     then getTransactions_loop sdk this rest
            (transactions @
               [JObj [(''signature'', JStr (signature sigInfo)),
                      (''timestamp'', JNum (js_mul (field_ToNumber (blockTime sigInfo)) (Fin 1000))),
                      (''status'', JStr (if err sigInfo \<noteq> None then ''failed'' else ''confirmed'')),
                      (''type'', JStr ''Unknown''),
                      (''description'', JStr [])]])
     else getTransactions_loop sdk this rest transactions)"

text \<open>
  The parameter \<open>limit\<close> is \<open>None\<close> when the caller leaves it out, and then takes its
  default 10.
\<close>

definition getTransactions ::
  "'w SDK \<Rightarrow> SolanaService \<Rightarrow> jsval \<Rightarrow> nat option \<Rightarrow> (jsval list, 'w) io" where
  "getTransactions sdk this publicKey_arg limit_arg =
     (let limit = (case limit_arg of None \<Rightarrow> 10 | Some l \<Rightarrow> l) in
      if \<not> truthy_object (connection this)
      then throw (Error ''Solana connection not available.'')
      else
        try_catch
          (call (newPublicKey sdk publicKey_arg) (\<lambda>pubKey.
           await (getSignaturesForAddress sdk (connection this) pubKey limit) (\<lambda>signatures.
           getTransactions_loop sdk this signatures [])))
          (\<lambda>error. throw error))"

subsection \<open>getServerWalletBalance\<close>

definition getServerWalletBalance :: "'w SDK \<Rightarrow> SolanaService \<Rightarrow> (jsnum, 'w) io" where
  "getServerWalletBalance sdk this =
     try_catch
       (if \<not> truthy_object (program this) \<or> \<not> truthy_object (provider (program this))
           \<or> \<not> truthy_object (wallet (provider (program this)))
           \<or> \<not> truthy_object (wallet_publicKey (wallet (provider (program this))))
        then throw (Error ''Server wallet public key not available.'')
        else
          await (getBalance sdk (connection this)
                   (wallet_publicKey (wallet (provider (program this))))) (\<lambda>lamports.
          resolve (js_div lamports (10 ^ 9))))
       (\<lambda>error. throw error)"

subsection \<open>The second variant of the server\<close>

text \<open>
  The file holds a second server after the first. Its \<open>transferTokens\<close> calls the SDK's
  \<open>transfer\<close>, and its \<open>getTokenBalances\<close> is written out again.
\<close>

definition transferTokens_v2 ::
  "'w SDK \<Rightarrow> SolanaService \<Rightarrow> jsval \<Rightarrow> jsval \<Rightarrow> jsval \<Rightarrow> (unit, 'w) io" where
  "transferTokens_v2 sdk this mintAddress recipientAddress amount_arg =
     call (newPublicKey sdk mintAddress) (\<lambda>mint.
     call (newPublicKey sdk recipientAddress) (\<lambda>recipient.
     let authority = wallet_publicKey (wallet (provider (program this))) in
     await (getOrCreateAssociatedTokenAccount sdk
              (connection this)
              (payer (wallet (provider (program this))))
              mint
              authority
              False
              ''confirmed''
              (TOKEN_2022_PROGRAM_ID sdk)) (\<lambda>sourceATA.
     await (getOrCreateAssociatedTokenAccount sdk
              (connection this)
              (payer (wallet (provider (program this))))
              mint
              recipient
              False
              ''confirmed''
              (TOKEN_2022_PROGRAM_ID sdk)) (\<lambda>destinationATA.
     await (transfer sdk
              (connection this)
              (payer (wallet (provider (program this))))
              (address sourceATA)
              (address destinationATA)
              authority
              (js_mul (ToNumber sdk amount_arg) ten_pow_9)
              []
              (TOKEN_2022_PROGRAM_ID sdk)) (\<lambda>_.
     resolve ())))))"

fun getTokenBalances_loop_v2 ::
  "'w SDK \<Rightarrow> SolanaService \<Rightarrow> pubkey list \<Rightarrow> jsval list \<Rightarrow> (jsval list, 'w) io" where
  "getTokenBalances_loop_v2 sdk this [] balances = resolve balances"
| "getTokenBalances_loop_v2 sdk this (account # rest) balances =
     await (getAccount sdk (connection this) account ''confirmed'' (TOKEN_2022_PROGRAM_ID sdk))
       (\<lambda>accountInfo.
     await (getMint sdk (connection this) (mint accountInfo) ''confirmed''
              (TOKEN_2022_PROGRAM_ID sdk)) (\<lambda>mintInfo.
     getTokenBalances_loop_v2 sdk this rest
       (balances @
          [JObj [(''mint'', JStr (PublicKey_toString sdk (mint accountInfo))),
                 (''amount'', JNum (Number_of_bigint (uint (amount accountInfo)))),
                 (''decimals'', JNum (Fin (of_nat (decimals mintInfo)))),
                 (''isTransferHookEnabled'', JBool (transferHookProgramId mintInfo \<noteq> Null)),
                 (''symbol'', JStr [])]])))"

definition getTokenBalances_v2 :: "'w SDK \<Rightarrow> SolanaService \<Rightarrow> jsval \<Rightarrow> (jsval list, 'w) io" where
  "getTokenBalances_v2 sdk this ownerAddress =
     call (newPublicKey sdk ownerAddress) (\<lambda>ownerPublicKey.
     await (getTokenAccountsByOwner sdk (connection this) ownerPublicKey
              (TOKEN_2022_PROGRAM_ID sdk)) (\<lambda>tokenAccounts.
     getTokenBalances_loop_v2 sdk this tokenAccounts []))"

section \<open>The routes\<close>

text \<open>
  The state of the server: the module variable \<open>solanaService\<close>, which stays
  \<open>undefined\<close> (\<open>None\<close>) when the constructor threw, and the world.
\<close>

record 'w server =
  solanaService :: "SolanaService option"
  world :: 'w

definition init_server :: "'w SDK \<Rightarrow> globals \<Rightarrow> 'w \<Rightarrow> 'w server" where
  "init_server sdk g w =
     \<lparr>solanaService = (case SolanaService_new sdk g of Inl e \<Rightarrow> None | Inr svc \<Rightarrow> Some svc),
      world = w\<rparr>"

text \<open>
  A request that reached a route: \<open>req.body\<close> as \<open>body-parser\<close> parsed it and
  \<open>req.query\<close>, each with the properties it holds. (A body that is not JSON is refused
  before any route, and ends in the error handler registered last, which sends the text
  \<open>Something broke!\<close> with status 500; no handler of a route passes an error there.)
\<close>

record request =
  body :: "string \<rightharpoonup> jsval"
  query :: "string \<rightharpoonup> jsval"

definition get_prop :: "(string \<rightharpoonup> jsval) \<Rightarrow> string \<Rightarrow> jsval" where
  "get_prop obj k = (case obj k of None \<Rightarrow> JUndefined | Some v \<Rightarrow> v)"

text \<open>A response: the HTTP status and the value handed to \<open>res.json\<close>.\<close>

record response =
  status :: nat
  json :: jsval

definition res_json :: "jsval \<Rightarrow> response" where
  "res_json v = \<lparr>status = 200, json = v\<rparr>"

definition res_status_json :: "nat \<Rightarrow> jsval \<Rightarrow> response" where
  "res_status_json code v = \<lparr>status = code, json = v\<rparr>"

type_synonym 'w handler = "request \<Rightarrow> 'w server \<Rightarrow> response \<times> 'w server"

text \<open>
  \<open>try { ... res.json(...) } catch (error) { res.status(500).json(...) }\<close>: the body of
  the \<open>try\<close> runs on the world and resolves to the response it sends.
\<close>

definition try_respond ::
  "(response, 'w) io \<Rightarrow> (error \<Rightarrow> response) \<Rightarrow> 'w server \<Rightarrow> response \<times> 'w server" where
  "try_respond m h s =
     (case m (world s) of
        (Inr r, w') \<Rightarrow> (r, s\<lparr>world := w'\<rparr>)
      | (Inl e, w') \<Rightarrow> (h e, s\<lparr>world := w'\<rparr>))"

definition post_api_create_token :: "'w SDK \<Rightarrow> 'w handler" where
  "post_api_create_token sdk req s =
     (case solanaService s of
        None \<Rightarrow>
          (res_status_json 500
             (JObj [(''success'', JBool False),
                    (''error'', JStr ''Backend service not initialized.'')]), s)
      | Some svc \<Rightarrow>
          try_respond
            (await (createTokenMint sdk svc) (\<lambda>mintAddress.
             resolve (res_json (JObj [(''success'', JBool True),
                                      (''mintAddress'', JStr mintAddress)]))))
            (\<lambda>error. res_status_json 500
               (JObj [(''success'', JBool False), (''error'', JStr (message error))]))
            s)"

definition post_api_issue_badge :: "'w SDK \<Rightarrow> 'w handler" where
  "post_api_issue_badge sdk req s =
     (case solanaService s of
        None \<Rightarrow>
          (res_status_json 500
             (JObj [(''success'', JBool False),
                    (''error'', JStr ''Backend service not initialized.'')]), s)
      | Some svc \<Rightarrow>
          let mintAddress = get_prop (body req) ''mintAddress'';
              recipientAddress = get_prop (body req) ''recipientAddress''
          in
          try_respond
            (await (issueBadge sdk svc mintAddress recipientAddress) (\<lambda>_.
             resolve (res_json (JObj [(''success'', JBool True)]))))
            (\<lambda>error. res_status_json 500
               (JObj [(''success'', JBool False), (''error'', JStr (message error))]))
            s)"

definition post_api_transfer :: "'w SDK \<Rightarrow> globals \<Rightarrow> 'w handler" where
  "post_api_transfer sdk g req s =
     (case solanaService s of
        None \<Rightarrow>
          (res_status_json 500
             (JObj [(''success'', JBool False),
                    (''error'', JStr ''Backend service not initialized.'')]), s)
      | Some svc \<Rightarrow>
          let mintAddress = get_prop (body req) ''mintAddress'';
              recipientAddress = get_prop (body req) ''recipientAddress'';
              amount_arg = get_prop (body req) ''amount''
          in
          try_respond
            (await (transferTokens sdk g svc mintAddress recipientAddress amount_arg) (\<lambda>_.
             resolve (res_json (JObj [(''success'', JBool True)]))))
            (\<lambda>error. res_status_json 500
               (JObj [(''success'', JBool False), (''error'', JStr (message error))]))
            s)"

definition get_api_token_balances :: "'w SDK \<Rightarrow> 'w handler" where
  "get_api_token_balances sdk req s =
     (case solanaService s of
        None \<Rightarrow>
          (res_status_json 500
             (JObj [(''success'', JBool False),
                    (''error'', JStr ''Backend service not initialized.'')]), s)
      | Some svc \<Rightarrow>
          let ownerAddress = get_prop (query req) ''ownerAddress'' in
          try_respond
            (await (getTokenBalances sdk svc ownerAddress) (\<lambda>balances.
             resolve (res_json (JObj [(''success'', JBool True),
                                      (''balances'', JArr balances)]))))
            (\<lambda>error. res_status_json 500
               (JObj [(''success'', JBool False), (''error'', JStr (message error))]))
            s)"

definition get_api_transactions :: "'w SDK \<Rightarrow> 'w handler" where
  "get_api_transactions sdk req s =
     (case solanaService s of
        None \<Rightarrow>
          (res_status_json 500
             (JObj [(''success'', JBool False),
                    (''error'', JStr ''Backend service not initialized.'')]), s)
      | Some svc \<Rightarrow>
          let publicKey_arg = get_prop (query req) ''publicKey'' in
          try_respond
            (await (getTransactions sdk svc publicKey_arg None) (\<lambda>transactions.
             resolve (res_json (JObj [(''success'', JBool True),
                                      (''transactions'', JArr transactions)]))))
            (\<lambda>error. res_status_json 500
               (JObj [(''success'', JBool False), (''error'', JStr (message error))]))
            s)"

definition get_api_server_wallet_transactions :: "'w SDK \<Rightarrow> 'w handler" where
  "get_api_server_wallet_transactions sdk req s =
     (case solanaService s of
        None \<Rightarrow>
          (res_status_json 500
             (JObj [(''success'', JBool False),
                    (''error'', JStr ''Backend service not initialized.'')]), s)
      | Some svc \<Rightarrow>
          try_respond
            (await (getTransactions sdk svc
                      (JStr (PublicKey_toString sdk
                               (wallet_publicKey (wallet (provider (program svc))))))
                      None) (\<lambda>transactions.
             resolve (res_json (JObj [(''success'', JBool True),
                                      (''transactions'', JArr transactions)]))))
            (\<lambda>error. res_status_json 500
               (JObj [(''success'', JBool False), (''error'', JStr (message error))]))
            s)"

definition get_api_health :: "'w handler" where
  "get_api_health req s = (res_json (JObj [(''status'', JStr ''OK'')]), s)"

definition get_api_wallet_status :: "'w SDK \<Rightarrow> globals \<Rightarrow> 'w handler" where
  "get_api_wallet_status sdk g req s =
     (case solanaService s of
        None \<Rightarrow>
          (res_status_json 500
             (JObj [(''connected'', JBool False),
                    (''error'', JStr ''Backend service not initialized.'')]), s)
      | Some svc \<Rightarrow>
          try_respond
            (if truthy_env (SERVER_WALLET_SECRET_KEY (env g))
             then
               call (JSON_parse sdk (the (SERVER_WALLET_SECRET_KEY (env g)))) (\<lambda>secret.
               call (newUint8Array sdk secret) (\<lambda>secret_bytes.
               call (Keypair_fromSecretKey sdk secret_bytes) (\<lambda>keypair.
               await (getServerWalletBalance sdk svc) (\<lambda>balance.
               resolve (res_json (JObj [(''connected'', JBool True),
                                        (''publicKey'',
                                           JStr (PublicKey_toString sdk (publicKey keypair))),
                                        (''balance'', JNum balance)]))))))
             else
               resolve (res_json (JObj [(''connected'', JBool False),
                                        (''message'', JStr ''SERVER_WALLET_SECRET_KEY not set.'')])))
            (\<lambda>error. res_status_json 500
               (JObj [(''connected'', JBool False), (''error'', JStr (message error))]))
            s)"

definition get_api_program_info :: "'w SDK \<Rightarrow> globals \<Rightarrow> 'w handler" where
  "get_api_program_info sdk g req s =
     (case solanaService s of
        None \<Rightarrow>
          (res_status_json 500
             (JObj [(''error'', JStr ''Backend service not initialized.'')]), s)
      | Some svc \<Rightarrow>
          try_respond
            (resolve (res_json
               (JObj [(''rpcEndpoint'', JStr (RPC_ENDPOINT g)),
                      (''transferHookProgramId'',
                         JStr (PublicKey_toString sdk (TRANSFER_HOOK_PROGRAM_ID g)))])))
            (\<lambda>error. res_status_json 500 (JObj [(''error'', JStr (message error))]))
            s)"

subsection \<open>Registration and dispatch\<close>

datatype http_method = GET | POST

text \<open>The \<open>app.post\<close> and \<open>app.get\<close> calls, in the order of the file.\<close>

definition routes :: "'w SDK \<Rightarrow> globals \<Rightarrow> (http_method \<times> string \<times> 'w handler) list" where
  "routes sdk g =
     [(POST, ''/api/create-token'', post_api_create_token sdk),
      (POST, ''/api/issue-badge'', post_api_issue_badge sdk),
      (POST, ''/api/transfer'', post_api_transfer sdk g),
      (GET, ''/api/token-balances'', get_api_token_balances sdk),
      (GET, ''/api/transactions'', get_api_transactions sdk),
      (GET, ''/api/server-wallet-transactions'', get_api_server_wallet_transactions sdk),
      (GET, ''/api/health'', get_api_health),
      (GET, ''/api/wallet-status'', get_api_wallet_status sdk g),
      (GET, ''/api/program-info'', get_api_program_info sdk g)]"

text \<open>
  With the settings \<open>express()\<close> starts with, a literal route path matches the path of a
  request up to the case of ASCII letters and one slash at the end.
\<close>

definition to_lower :: "char \<Rightarrow> char" where
  "to_lower c =
     (case map_of (zip ''ABCDEFGHIJKLMNOPQRSTUVWXYZ'' ''abcdefghijklmnopqrstuvwxyz'') c of
        Some l \<Rightarrow> l
      | None \<Rightarrow> c)"

definition path_matches :: "string \<Rightarrow> string \<Rightarrow> bool" where
  "path_matches route_path p =
     (map to_lower p = map to_lower route_path
      \<or> map to_lower p = map to_lower route_path @ ''/'')"

text \<open>
  A request goes to the first route registered for its method whose path matches; Express
  answers 404 itself when there is none (the text it sends is not modelled). The requests
  are those with method GET or POST.
\<close>

definition handle ::
  "'w SDK \<Rightarrow> globals \<Rightarrow> http_method \<Rightarrow> string \<Rightarrow> 'w handler" where
  "handle sdk g m p req s =
     (case find (\<lambda>(m', route_path, h). m' = m \<and> path_matches route_path p) (routes sdk g) of
        Some (m', route_path, h) \<Rightarrow> h req s
      | None \<Rightarrow> (res_status_json 404 JUndefined, s))"

text \<open>
  The server handling a sequence of requests, one after the other. (Node may interleave two
  handlers at their \<open>await\<close>s; that interleaves their calls to the SDK, which the world
  stands for, and nothing else.)
\<close>

fun serve ::
  "'w SDK \<Rightarrow> globals \<Rightarrow> (http_method \<times> string \<times> request) list \<Rightarrow> 'w server
     \<Rightarrow> response list \<times> 'w server" where
  "serve sdk g [] s = ([], s)"
| "serve sdk g ((m, p, req) # rest) s =
     (case handle sdk g m p req s of
        (r, s') \<Rightarrow> (case serve sdk g rest s' of (rs, s'') \<Rightarrow> (r # rs, s'')))"

section \<open>The responses of the SDK to a loop\<close>

text \<open>
  The lookups that \<open>getTokenBalances\<close> makes for the token accounts of an owner, in
  its order: the account, then the mint of that account. The result is the list of the
  SDK's answers, or the first rejection.
\<close>

fun getTokenBalances_responses ::
  "'w SDK \<Rightarrow> SolanaService \<Rightarrow> pubkey list \<Rightarrow> ((Account \<times> Mint) list, 'w) io" where
  "getTokenBalances_responses sdk this [] = resolve []"
| "getTokenBalances_responses sdk this (account # rest) =
     await (getAccount sdk (connection this) account ''confirmed'' (TOKEN_2022_PROGRAM_ID sdk))
       (\<lambda>accountInfo.
     await (getMint sdk (connection this) (mint accountInfo) ''confirmed''
              (TOKEN_2022_PROGRAM_ID sdk)) (\<lambda>mintInfo.
     await (getTokenBalances_responses sdk this rest) (\<lambda>infos.
     resolve ((accountInfo, mintInfo) # infos))))"


text \<open>Whether the object in a response body has a property.\<close>

fun has_property :: "jsval \<Rightarrow> string \<Rightarrow> bool" where
  "has_property (JObj kvs) k = (k \<in> fst ` set kvs)"
| "has_property _ k = False"

section \<open>An SDK to run the server on\<close>

text \<open>
  A small SDK for running the definitions on concrete requests. Its world is the list of
  the transactions submitted so far. With \<open>up = False\<close> every asynchronous call rejects.
  A public key is built from a non-empty string, and is printed as that string.
\<close>

definition demo_rpc :: "bool \<Rightarrow> 'a \<Rightarrow> ('a, 'w) io" where
  "demo_rpc up x = (if up then resolve x else throw (Error ''failed to get info'')) "

definition demo_sdk :: "bool \<Rightarrow> Transaction list SDK" where
  "demo_sdk up =
     \<lparr>newPublicKey =
        (\<lambda>v. case v of
                JStr s \<Rightarrow> if s = [] then Inl (Error ''Invalid public key input'')
                          else Inr (PublicKey (Buffer_from s))
              | _ \<Rightarrow> Inl (Error ''Invalid public key input'')),
      PublicKey_toString = (\<lambda>k. map (\<lambda>b. char_of (unat b)) (toBuffer k)),
      findProgramAddressSync = (\<lambda>seeds p. Inr (PublicKey (concat seeds @ toBuffer p), 255)),
      Keypair_generate = (\<lambda>w. (\<lparr>publicKey = PublicKey [77, 48 + of_nat (length w)], secretKey = [7]\<rparr>, w)),
      Keypair_fromSecretKey = (\<lambda>b. Inr \<lparr>publicKey = PublicKey (drop 1 b), secretKey = b\<rparr>),
      newConnection =
        (\<lambda>url c v. Inr \<lparr>rpcEndpoint = url, commitment = c,
                          maxSupportedTransactionVersion = v\<rparr>),
      TOKEN_2022_PROGRAM_ID = PublicKey [6],
      SystemProgram_programId = PublicKey [0],
      getMintLen = (\<lambda>exts. 234),
      SystemProgram_createAccount =
        (\<lambda>p. \<lparr>keys = [\<lparr>pubkey = fromPubkey p, isSigner = True, isWritable = True\<rparr>,
                        \<lparr>pubkey = newAccountPubkey p, isSigner = True, isWritable = True\<rparr>],
               ix_programId = PublicKey [0], data = [0]\<rparr>),
      createInitializeTransferHookInstruction =
        (\<lambda>m a p t. \<lparr>keys = [\<lparr>pubkey = m, isSigner = False, isWritable = True\<rparr>],
                     ix_programId = t, data = [36]\<rparr>),
      createInitializeMintInstruction =
        (\<lambda>m d a f t. \<lparr>keys = [\<lparr>pubkey = m, isSigner = False, isWritable = True\<rparr>],
                       ix_programId = t, data = [20, of_nat d]\<rparr>),
      getMinimumBalanceForRentExemption = (\<lambda>c n. demo_rpc up (Fin 2519520)),
      sendAndConfirm =
        (\<lambda>p tx signers w. if up then (Inr ''5sig'', w @ [tx])
                           else (Inl (Error ''failed to send transaction''), w)),
      initializeExtraAccountMetaList_rpc = (\<lambda>p a. demo_rpc up ''3sig''),
      issueBadge_rpc = (\<lambda>p a. demo_rpc up ''4sig''),
      getOrCreateAssociatedTokenAccount =
        (\<lambda>c p m ownr off cm t.
           demo_rpc up \<lparr>address = PublicKey (toBuffer m @ toBuffer ownr), mint = m, amount = 0\<rparr>),
      createTransferCheckedWithTransferHookInstruction =
        (\<lambda>c src m dst ownr amt d signers cm t.
           demo_rpc up
             \<lparr>keys = [\<lparr>pubkey = src, isSigner = False, isWritable = True\<rparr>,
                      \<lparr>pubkey = m, isSigner = False, isWritable = False\<rparr>,
                      \<lparr>pubkey = dst, isSigner = False, isWritable = True\<rparr>,
                      \<lparr>pubkey = ownr, isSigner = True, isWritable = False\<rparr>],
              ix_programId = t, data = [12, of_nat d]\<rparr>),
      transfer = (\<lambda>c p src dst ownr amt signers t. demo_rpc up ''6sig''),
      getTokenAccountsByOwner = (\<lambda>c ownr t. demo_rpc up [PublicKey [10], PublicKey [11]]),
      getAccount =
        (\<lambda>c a cm t. demo_rpc up \<lparr>address = a, mint = PublicKey (65 # toBuffer a),
                                    amount = 1500000000\<rparr>),
      getMint =
        (\<lambda>c m cm t. demo_rpc up
           \<lparr>decimals = 9,
            transferHookProgramId = (if m = PublicKey [65, 10] then Null else Undefined)\<rparr>),
      getSignaturesForAddress =
        (\<lambda>c k n. demo_rpc up
           (take n [\<lparr>signature = ''s1'', blockTime = Value (Fin 1700000000), err = None\<rparr>,
                    \<lparr>signature = ''s2'', blockTime = Null, err = None\<rparr>,
                    \<lparr>signature = ''s3'', blockTime = Value (Fin 1700000005),
                      err = Some (TransactionError ''AccountInUse'')\<rparr>])),
      getTransaction =
        (\<lambda>c sg cm v. demo_rpc up
           (if sg = ''s2'' then None else Some (TransactionResponse 1))),
      getBalance = (\<lambda>c k. demo_rpc up (Fin 5000000000)),
      ToNumber_string_or_object = (\<lambda>v. NaN),
      JSON_parse = (\<lambda>s. if s = [] then Inl (Error ''Unexpected end of JSON input'')
                         else Inr (JArr (map (\<lambda>c. JNum (Fin (of_nat (of_char c)))) s))),
      newUint8Array =
        (\<lambda>v. case v of
                JArr xs \<Rightarrow> Inr (map (\<lambda>x. case x of JNum (Fin q) \<Rightarrow> of_int \<lfloor>q\<rfloor> | _ \<Rightarrow> 0) xs)
              | _ \<Rightarrow> Inr [])\<rparr>"

definition demo_globals :: globals where
  "demo_globals =
     \<lparr>env = \<lparr>RPC_URL = None, SERVER_WALLET_SECRET_KEY = Some ''AB''\<rparr>,
      TRANSFER_HOOK_PROGRAM_ID = PublicKey [72]\<rparr>"

definition demo_service :: SolanaService where
  "demo_service =
     \<lparr>connection = \<lparr>rpcEndpoint = ''https://api.devnet.solana.com'', commitment = ''confirmed'',
                     maxSupportedTransactionVersion = Some 0\<rparr>,
      program = \<lparr>programId = PublicKey [72],
        provider = \<lparr>provider_connection =
                      \<lparr>rpcEndpoint = ''https://api.devnet.solana.com'',
                       commitment = ''confirmed'', maxSupportedTransactionVersion = Some 0\<rparr>,
                    wallet = \<lparr>payer = \<lparr>publicKey = PublicKey [66], secretKey = [65, 66]\<rparr>\<rparr>,
                    provider_commitment = ''confirmed''\<rparr>\<rparr>\<rparr>"

definition demo_server :: "Transaction list server" where
  "demo_server = \<lparr>solanaService = Some demo_service, world = []\<rparr>"

definition demo_request :: request where
  "demo_request =
     \<lparr>body = [''mintAddress'' \<mapsto> JStr ''M'', ''recipientAddress'' \<mapsto> JStr ''R'',
              ''amount'' \<mapsto> JNum (Fin 5)],
      query = [''ownerAddress'' \<mapsto> JStr ''O'', ''publicKey'' \<mapsto> JStr ''P'']\<rparr>"

text \<open>What this SDK returns for the transfer of \<open>demo_request\<close>, and the address it derives.\<close>

definition demo_transferInstruction :: TransactionInstruction where
  "demo_transferInstruction =
     \<lparr>keys = [\<lparr>pubkey = PublicKey [77, 66], isSigner = False, isWritable = True\<rparr>,
              \<lparr>pubkey = PublicKey [77], isSigner = False, isWritable = False\<rparr>,
              \<lparr>pubkey = PublicKey [77, 82], isSigner = False, isWritable = True\<rparr>,
              \<lparr>pubkey = PublicKey [66], isSigner = True, isWritable = False\<rparr>],
      ix_programId = PublicKey [6], data = [12, 9]\<rparr>"

definition demo_extraAccountMetaListPDA :: pubkey where
  "demo_extraAccountMetaListPDA = PublicKey (Buffer_from ''extra-account-metas'' @ [77, 72])"



definition empty_request :: request where
  "empty_request = \<lparr>body = Map.empty, query = Map.empty\<rparr>"

section \<open>The documented surface\<close>

text \<open>
  Following the specification: the eight endpoints it lists as the externally observable
  surface (create-token, issue-badge, transfer, token-balances, transactions,
  wallet-status, program-info, health), with the method and path under which the first
  server registers each.
\<close>

definition documented_surface :: "(http_method \<times> string) list" where
  "documented_surface =
     [(POST, ''/api/create-token''),
      (POST, ''/api/issue-badge''),
      (POST, ''/api/transfer''),
      (GET, ''/api/token-balances''),
      (GET, ''/api/transactions''),
      (GET, ''/api/wallet-status''),
      (GET, ''/api/program-info''),
      (GET, ''/api/health'')]"

section \<open>Integers that binary64 holds exactly\<close>

lemma round_half_even_of_int: "round_half_even (of_int z) = z"
  by (simp add: round_half_even_def)

lemma pow2_nonpos: "e \<le> 0 \<Longrightarrow> pow2 e = 1 / 2 ^ nat (- e)"
  by (cases "e = 0") (simp_all add: pow2_def)

lemma bitlen_le:
  assumes "0 < n" "n < 2 ^ k"
  shows "bitlen n \<le> int k"
proof -
  from bitlen_bounds [OF assms(1)] have "2 ^ nat (bitlen n - 1) \<le> n" by simp
  with assms(2) have "(2::int) ^ nat (bitlen n - 1) < 2 ^ k" by linarith
  then have "nat (bitlen n - 1) < k" by simp
  then show ?thesis by linarith
qed

lemma ilog2_of_int_le:
  assumes "0 < n" "n < 2 ^ 53"
  shows "ilog2 (of_int n) \<le> 52"
proof -
  have "bitlen n \<le> 53" using bitlen_le [OF assms] by simp
  moreover have "bitlen 1 = 1" by (simp add: bitlen_alt_def)
  ultimately show ?thesis
    by (simp add: ilog2_def Let_def)
qed

text \<open>A positive integer below \<open>2^53\<close> is a binary64 number: rounding leaves it as it is.\<close>

lemma js_round_pos_exact:
  assumes "0 < n" "n < 2 ^ 53"
  shows "js_round (of_int n) = Fin (of_int n)"
proof -
  define e where "e = max (ilog2 (of_int n) - 52) (- 1074)"
  have e: "e \<le> 0" "- 1074 \<le> e" using ilog2_of_int_le [OF assms] by (simp_all add: e_def)
  have absn: "\<bar>of_int n :: rat\<bar> = of_int n" using assms by simp
  have scaled: "(of_int n :: rat) / pow2 e = of_int (n * 2 ^ nat (- e))"
    using e by (simp add: pow2_nonpos)
  have unscaled: "(of_int (n * 2 ^ nat (- e)) :: rat) * pow2 e = of_int n"
    using e by (simp add: pow2_nonpos)
  have "(of_int n :: rat) \<noteq> 0" "(0::rat) < of_int n" using assms by simp_all
  then show ?thesis
    using e
    unfolding js_round_def Let_def absn e_def [symmetric] scaled round_half_even_of_int unscaled
    by simp
qed

lemma js_round_numeral:
  "(numeral k :: int) < 2 ^ 53 \<Longrightarrow> js_round (numeral k) = Fin (numeral k)"
  using js_round_pos_exact [of "numeral k"] by simp

lemma js_mul_nat_exact:
  "a * b < 2 ^ 53 \<Longrightarrow> js_mul (Fin (of_nat a)) (Fin (of_nat b)) = Fin (of_nat (a * b))"
proof (cases "a * b = 0")
  case True
  then show ?thesis by (auto simp add: js_round_def)
next
  case False
  assume "a * b < 2 ^ 53"
  then have "int (a * b) < 2 ^ 53" by (metis of_nat_less_iff of_nat_numeral of_nat_power)
  moreover from False have "0 < int (a * b)" by simp
  ultimately have "js_round (of_int (int (a * b))) = Fin (of_int (int (a * b)))"
    by (rule js_round_pos_exact [rotated])
  then show ?thesis by simp
qed

section \<open>Unfolding\<close>

lemmas io_defs = await_def resolve_def throw_def call_def try_catch_def total_def

lemmas demo_defs = demo_sdk_def demo_rpc_def demo_globals_def demo_service_def demo_server_def
  demo_request_def demo_transferInstruction_def demo_extraAccountMetaListPDA_def

lemmas route_defs = try_respond_def res_json_def res_status_json_def

lemmas service_defs = createTokenMint_def issueBadge_def transferTokens_def getTokenBalances_def
  getTransactions_def getServerWalletBalance_def wallet_publicKey_def truthy_object_def
  truthy_env_def get_prop_def Buffer_from_def ToNumber_def

section \<open>The loops and the responses of the SDK\<close>

lemma getTokenBalances_loop_v2_eq:
  "getTokenBalances_loop_v2 sdk this accounts balances = getTokenBalances_loop sdk this accounts balances"
  by (induction accounts arbitrary: balances) simp_all

lemma getTokenBalances_loop_responses:
  "getTokenBalances_loop sdk this accounts balances =
     await (getTokenBalances_responses sdk this accounts) (\<lambda>infos.
     resolve (balances @
       map (\<lambda>(accountInfo, mintInfo).
              JObj [(''mint'', JStr (PublicKey_toString sdk (mint accountInfo))),
                    (''amount'', JNum (Number_of_bigint (uint (amount accountInfo)))),
                    (''decimals'', JNum (Fin (of_nat (decimals mintInfo)))),
                    (''isTransferHookEnabled'', JBool (transferHookProgramId mintInfo \<noteq> Null)),
                    (''symbol'', JStr [])]) infos))"
proof (induction accounts arbitrary: balances)
  case Nil
  show ?case by (simp add: await_def resolve_def)
next
  case (Cons account rest)
  show ?case
    by (simp add: Cons.IH) (auto simp add: await_def resolve_def fun_eq_iff split: prod.splits sum.splits)
qed

lemma getTokenBalances_responses_length:
  "getTokenBalances_responses sdk this accounts w = (Inr infos, w') \<Longrightarrow> length infos = length accounts"
proof (induction accounts arbitrary: w infos)
  case Nil
  then show ?case by (simp add: resolve_def)
next
  case (Cons account rest)
  then show ?case
    by (auto simp add: await_def resolve_def split: prod.splits sum.splits)
qed





section \<open>What each route answers\<close>

lemma post_api_create_token_eq:
  "solanaService s = Some svc \<Longrightarrow>
   post_api_create_token sdk req s =
     (case createTokenMint sdk svc (world s) of
        (Inr mintAddress, w') \<Rightarrow>
          (\<lparr>status = 200,
            json = JObj [(''success'', JBool True), (''mintAddress'', JStr mintAddress)]\<rparr>,
           s\<lparr>world := w'\<rparr>)
      | (Inl e, w') \<Rightarrow>
          (\<lparr>status = 500,
            json = JObj [(''success'', JBool False), (''error'', JStr (message e))]\<rparr>,
           s\<lparr>world := w'\<rparr>))"
  by (simp add: post_api_create_token_def route_defs await_def resolve_def
      split: prod.splits sum.splits)

lemma post_api_issue_badge_eq:
  "solanaService s = Some svc \<Longrightarrow>
   post_api_issue_badge sdk req s =
     (case issueBadge sdk svc (get_prop (body req) ''mintAddress'')
             (get_prop (body req) ''recipientAddress'') (world s) of
        (Inr u, w') \<Rightarrow>
          (\<lparr>status = 200, json = JObj [(''success'', JBool True)]\<rparr>, s\<lparr>world := w'\<rparr>)
      | (Inl e, w') \<Rightarrow>
          (\<lparr>status = 500,
            json = JObj [(''success'', JBool False), (''error'', JStr (message e))]\<rparr>,
           s\<lparr>world := w'\<rparr>))"
  by (simp add: post_api_issue_badge_def route_defs await_def resolve_def
      split: prod.splits sum.splits)

lemma post_api_transfer_eq:
  "solanaService s = Some svc \<Longrightarrow>
   post_api_transfer sdk g req s =
     (case transferTokens sdk g svc (get_prop (body req) ''mintAddress'')
             (get_prop (body req) ''recipientAddress'') (get_prop (body req) ''amount'')
             (world s) of
        (Inr u, w') \<Rightarrow>
          (\<lparr>status = 200, json = JObj [(''success'', JBool True)]\<rparr>, s\<lparr>world := w'\<rparr>)
      | (Inl e, w') \<Rightarrow>
          (\<lparr>status = 500,
            json = JObj [(''success'', JBool False), (''error'', JStr (message e))]\<rparr>,
           s\<lparr>world := w'\<rparr>))"
  by (simp add: post_api_transfer_def route_defs await_def resolve_def
      split: prod.splits sum.splits)

lemma get_api_token_balances_eq:
  "solanaService s = Some svc \<Longrightarrow>
   get_api_token_balances sdk req s =
     (case getTokenBalances sdk svc (get_prop (query req) ''ownerAddress'') (world s) of
        (Inr balances, w') \<Rightarrow>
          (\<lparr>status = 200,
            json = JObj [(''success'', JBool True), (''balances'', JArr balances)]\<rparr>,
           s\<lparr>world := w'\<rparr>)
      | (Inl e, w') \<Rightarrow>
          (\<lparr>status = 500,
            json = JObj [(''success'', JBool False), (''error'', JStr (message e))]\<rparr>,
           s\<lparr>world := w'\<rparr>))"
  by (simp add: get_api_token_balances_def route_defs await_def resolve_def
      split: prod.splits sum.splits)

lemma get_api_transactions_eq:
  "solanaService s = Some svc \<Longrightarrow>
   get_api_transactions sdk req s =
     (case getTransactions sdk svc (get_prop (query req) ''publicKey'') None (world s) of
        (Inr transactions, w') \<Rightarrow>
          (\<lparr>status = 200,
            json = JObj [(''success'', JBool True), (''transactions'', JArr transactions)]\<rparr>,
           s\<lparr>world := w'\<rparr>)
      | (Inl e, w') \<Rightarrow>
          (\<lparr>status = 500,
            json = JObj [(''success'', JBool False), (''error'', JStr (message e))]\<rparr>,
           s\<lparr>world := w'\<rparr>))"
  by (simp add: get_api_transactions_def route_defs await_def resolve_def
      split: prod.splits sum.splits)


text \<open>Every handler leaves the module variable \<open>solanaService\<close> as it was.\<close>

lemma try_respond_service: "solanaService (snd (try_respond m h s)) = solanaService s"
  by (simp add: try_respond_def split: prod.splits sum.splits)

lemma handler_service:
  "solanaService (snd (post_api_create_token sdk req s)) = solanaService s"
  "solanaService (snd (post_api_issue_badge sdk req s)) = solanaService s"
  "solanaService (snd (post_api_transfer sdk g req s)) = solanaService s"
  "solanaService (snd (get_api_token_balances sdk req s)) = solanaService s"
  "solanaService (snd (get_api_transactions sdk req s)) = solanaService s"
  "solanaService (snd (get_api_server_wallet_transactions sdk req s)) = solanaService s"
  "solanaService (snd (get_api_health req s)) = solanaService s"
  "solanaService (snd (get_api_wallet_status sdk g req s)) = solanaService s"
  "solanaService (snd (get_api_program_info sdk g req s)) = solanaService s"
  by (simp_all add: post_api_create_token_def post_api_issue_badge_def post_api_transfer_def
      get_api_token_balances_def get_api_transactions_def get_api_server_wallet_transactions_def
      get_api_health_def get_api_wallet_status_def get_api_program_info_def
      try_respond_service Let_def split: option.splits)

lemma handle_service: "solanaService (snd (handle sdk g m p req s)) = solanaService s"
proof (cases "find (\<lambda>(m', route_path, h). m' = m \<and> path_matches route_path p) (routes sdk g)")
  case None
  then show ?thesis by (simp add: handle_def)
next
  case (Some r)
  then obtain m' p' h where r: "r = (m', p', h)" by (cases r) auto
  from Some have "r \<in> set (routes sdk g)"
    by (auto simp: find_Some_iff in_set_conv_nth)
  with r have "solanaService (snd (h req s)) = solanaService s"
    by (auto simp: routes_def handler_service)
  with Some r show ?thesis by (simp add: handle_def)
qed

lemma serve_service:
  "solanaService (snd (serve sdk g reqs s)) = solanaService s"
proof (induction reqs arbitrary: s)
  case Nil
  show ?case by simp
next
  case (Cons r reqs)
  obtain m p req where r: "r = (m, p, req)" by (cases r) auto
  obtain resp s' where h: "handle sdk g m p req s = (resp, s')" by (cases "handle sdk g m p req s") auto
  have "solanaService s' = solanaService s" using handle_service[of sdk g m p req s] h by simp
  with Cons.IH[of s'] r h show ?case by (auto split: prod.splits)
qed

section \<open>Where a thrown error comes from\<close>








lemma createTokenMint_success:
  "createTokenMint sdk this w = (Inr mintAddress, w') \<Longrightarrow>
   \<exists>mintKeypair w0 rent w1 sig w2 extraAccountMetaListPDA bump sig'.
           Keypair_generate sdk w = (mintKeypair, w0)
         \<and> getMinimumBalanceForRentExemption sdk (connection this)
              (getMintLen sdk [TransferHook]) w0 = (Inr rent, w1)
         \<and> sendAndConfirm sdk (provider (program this))
                [SystemProgram_createAccount sdk
                   \<lparr>fromPubkey = wallet_publicKey (wallet (provider (program this))),
                    newAccountPubkey = publicKey mintKeypair,
                    space = getMintLen sdk [TransferHook],
                    lamports = rent,
                    owner_programId = TOKEN_2022_PROGRAM_ID sdk\<rparr>,
                 createInitializeTransferHookInstruction sdk
                   (publicKey mintKeypair)
                   (wallet_publicKey (wallet (provider (program this))))
                   (programId (program this))
                   (TOKEN_2022_PROGRAM_ID sdk),
                 createInitializeMintInstruction sdk
                   (publicKey mintKeypair)
                   9
                   (wallet_publicKey (wallet (provider (program this))))
                   None
                   (TOKEN_2022_PROGRAM_ID sdk)]
                [mintKeypair] w1 = (Inr sig, w2)
         \<and> findProgramAddressSync sdk
              [Buffer_from ''extra-account-metas'', toBuffer (publicKey mintKeypair)]
              (programId (program this)) = Inr (extraAccountMetaListPDA, bump)
         \<and> initializeExtraAccountMetaList_rpc sdk (program this)
              \<lparr>eam_payer = wallet_publicKey (wallet (provider (program this))),
                          eam_mint = publicKey mintKeypair,
                          extraAccountMetaList = extraAccountMetaListPDA,
                          eam_systemProgram = SystemProgram_programId sdk\<rparr>
              w2 = (Inr sig', w')
         \<and> mintAddress = PublicKey_toString sdk (publicKey mintKeypair)"
  by (auto simp add: createTokenMint_def io_defs Let_def split: prod.splits sum.splits)

section \<open>Thrown errors\<close>




section \<open>The success field\<close>

text \<open>
  C2 (as amended). Every response of the routes create-token, issue-badge, transfer,
  token-balances and transactions has a \<open>success\<close> field, and no response of health,
  wallet-status and program-info has one. On the first five, with the service initialised:
  when the service call resolves, the status is 200 and the body is \<open>{ success: true }\<close>,
  with \<open>mintAddress\<close>, \<open>balances\<close> or \<open>transactions\<close> where the route has a result;
  when it throws, the status is 500 and the body is \<open>{ success: false, error }\<close>.
\<close>

theorem success_field_of_routes:
  "has_property (json (fst (post_api_create_token sdk req s))) ''success''
   \<and> has_property (json (fst (post_api_issue_badge sdk req s))) ''success''
   \<and> has_property (json (fst (post_api_transfer sdk g req s))) ''success''
   \<and> has_property (json (fst (get_api_token_balances sdk req s))) ''success''
   \<and> has_property (json (fst (get_api_transactions sdk req s))) ''success''
   \<and> \<not> has_property (json (fst (get_api_health req s))) ''success''
   \<and> \<not> has_property (json (fst (get_api_wallet_status sdk g req s))) ''success''
   \<and> \<not> has_property (json (fst (get_api_program_info sdk g req s))) ''success''
   \<and> (\<forall>svc. solanaService s = Some svc \<longrightarrow>
        post_api_create_token sdk req s =
         (case createTokenMint sdk svc (world s) of
            (Inr mintAddress, w') \<Rightarrow>
              (\<lparr>status = 200, json = JObj [(''success'', JBool True), (''mintAddress'', JStr mintAddress)]\<rparr>,
               s\<lparr>world := w'\<rparr>)
          | (Inl e, w') \<Rightarrow>
              (\<lparr>status = 500,
                json = JObj [(''success'', JBool False), (''error'', JStr (message e))]\<rparr>,
               s\<lparr>world := w'\<rparr>))
      \<and> post_api_issue_badge sdk req s =
         (case issueBadge sdk svc (get_prop (body req) ''mintAddress'')
                 (get_prop (body req) ''recipientAddress'') (world s) of
            (Inr u, w') \<Rightarrow>
              (\<lparr>status = 200, json = JObj [(''success'', JBool True)]\<rparr>,
               s\<lparr>world := w'\<rparr>)
          | (Inl e, w') \<Rightarrow>
              (\<lparr>status = 500,
                json = JObj [(''success'', JBool False), (''error'', JStr (message e))]\<rparr>,
               s\<lparr>world := w'\<rparr>))
      \<and> post_api_transfer sdk g req s =
         (case transferTokens sdk g svc (get_prop (body req) ''mintAddress'')
                 (get_prop (body req) ''recipientAddress'') (get_prop (body req) ''amount'')
                 (world s) of
            (Inr u, w') \<Rightarrow>
              (\<lparr>status = 200, json = JObj [(''success'', JBool True)]\<rparr>,
               s\<lparr>world := w'\<rparr>)
          | (Inl e, w') \<Rightarrow>
              (\<lparr>status = 500,
                json = JObj [(''success'', JBool False), (''error'', JStr (message e))]\<rparr>,
               s\<lparr>world := w'\<rparr>))
      \<and> get_api_token_balances sdk req s =
         (case getTokenBalances sdk svc (get_prop (query req) ''ownerAddress'') (world s) of
            (Inr balances, w') \<Rightarrow>
              (\<lparr>status = 200, json = JObj [(''success'', JBool True), (''balances'', JArr balances)]\<rparr>,
               s\<lparr>world := w'\<rparr>)
          | (Inl e, w') \<Rightarrow>
              (\<lparr>status = 500,
                json = JObj [(''success'', JBool False), (''error'', JStr (message e))]\<rparr>,
               s\<lparr>world := w'\<rparr>))
      \<and> get_api_transactions sdk req s =
         (case getTransactions sdk svc (get_prop (query req) ''publicKey'') None (world s) of
            (Inr transactions, w') \<Rightarrow>
              (\<lparr>status = 200, json = JObj [(''success'', JBool True), (''transactions'', JArr transactions)]\<rparr>,
               s\<lparr>world := w'\<rparr>)
          | (Inl e, w') \<Rightarrow>
              (\<lparr>status = 500,
                json = JObj [(''success'', JBool False), (''error'', JStr (message e))]\<rparr>,
               s\<lparr>world := w'\<rparr>)))"
proof -
  have health: "\<not> has_property (json (fst (get_api_health req s))) ''success''"
    by (simp add: get_api_health_def res_json_def)
  have wallet_status:
    "\<not> has_property (json (fst (get_api_wallet_status sdk g req s))) ''success''"
    by (auto simp add: get_api_wallet_status_def route_defs io_defs
        split: option.splits prod.splits sum.splits if_splits)
  have program_info:
    "\<not> has_property (json (fst (get_api_program_info sdk g req s))) ''success''"
    by (simp add: get_api_program_info_def route_defs io_defs split: option.splits)
  have r1: "has_property (json (fst (post_api_create_token sdk req s))) ''success''"
  proof (cases "solanaService s")
    case None
    then show ?thesis by (simp add: post_api_create_token_def res_status_json_def)
  next
    case (Some svc)
    then show ?thesis
      by (simp add: post_api_create_token_eq split: prod.splits sum.splits)
  qed
  have r2: "has_property (json (fst (post_api_issue_badge sdk req s))) ''success''"
  proof (cases "solanaService s")
    case None
    then show ?thesis by (simp add: post_api_issue_badge_def res_status_json_def)
  next
    case (Some svc)
    then show ?thesis
      by (simp add: post_api_issue_badge_eq split: prod.splits sum.splits)
  qed
  have r3: "has_property (json (fst (post_api_transfer sdk g req s))) ''success''"
  proof (cases "solanaService s")
    case None
    then show ?thesis by (simp add: post_api_transfer_def res_status_json_def)
  next
    case (Some svc)
    then show ?thesis
      by (simp add: post_api_transfer_eq split: prod.splits sum.splits)
  qed
  have r4: "has_property (json (fst (get_api_token_balances sdk req s))) ''success''"
  proof (cases "solanaService s")
    case None
    then show ?thesis by (simp add: get_api_token_balances_def res_status_json_def)
  next
    case (Some svc)
    then show ?thesis
      by (simp add: get_api_token_balances_eq split: prod.splits sum.splits)
  qed
  have r5: "has_property (json (fst (get_api_transactions sdk req s))) ''success''"
  proof (cases "solanaService s")
    case None
    then show ?thesis by (simp add: get_api_transactions_def res_status_json_def)
  next
    case (Some svc)
    then show ?thesis
      by (simp add: get_api_transactions_eq split: prod.splits sum.splits)
  qed
  have eqs: "\<forall>svc. solanaService s = Some svc \<longrightarrow>
        post_api_create_token sdk req s =
         (case createTokenMint sdk svc (world s) of
            (Inr mintAddress, w') \<Rightarrow>
              (\<lparr>status = 200, json = JObj [(''success'', JBool True), (''mintAddress'', JStr mintAddress)]\<rparr>,
               s\<lparr>world := w'\<rparr>)
          | (Inl e, w') \<Rightarrow>
              (\<lparr>status = 500,
                json = JObj [(''success'', JBool False), (''error'', JStr (message e))]\<rparr>,
               s\<lparr>world := w'\<rparr>))
      \<and> post_api_issue_badge sdk req s =
         (case issueBadge sdk svc (get_prop (body req) ''mintAddress'')
                 (get_prop (body req) ''recipientAddress'') (world s) of
            (Inr u, w') \<Rightarrow>
              (\<lparr>status = 200, json = JObj [(''success'', JBool True)]\<rparr>,
               s\<lparr>world := w'\<rparr>)
          | (Inl e, w') \<Rightarrow>
              (\<lparr>status = 500,
                json = JObj [(''success'', JBool False), (''error'', JStr (message e))]\<rparr>,
               s\<lparr>world := w'\<rparr>))
      \<and> post_api_transfer sdk g req s =
         (case transferTokens sdk g svc (get_prop (body req) ''mintAddress'')
                 (get_prop (body req) ''recipientAddress'') (get_prop (body req) ''amount'')
                 (world s) of
            (Inr u, w') \<Rightarrow>
              (\<lparr>status = 200, json = JObj [(''success'', JBool True)]\<rparr>,
               s\<lparr>world := w'\<rparr>)
          | (Inl e, w') \<Rightarrow>
              (\<lparr>status = 500,
                json = JObj [(''success'', JBool False), (''error'', JStr (message e))]\<rparr>,
               s\<lparr>world := w'\<rparr>))
      \<and> get_api_token_balances sdk req s =
         (case getTokenBalances sdk svc (get_prop (query req) ''ownerAddress'') (world s) of
            (Inr balances, w') \<Rightarrow>
              (\<lparr>status = 200, json = JObj [(''success'', JBool True), (''balances'', JArr balances)]\<rparr>,
               s\<lparr>world := w'\<rparr>)
          | (Inl e, w') \<Rightarrow>
              (\<lparr>status = 500,
                json = JObj [(''success'', JBool False), (''error'', JStr (message e))]\<rparr>,
               s\<lparr>world := w'\<rparr>))
      \<and> get_api_transactions sdk req s =
         (case getTransactions sdk svc (get_prop (query req) ''publicKey'') None (world s) of
            (Inr transactions, w') \<Rightarrow>
              (\<lparr>status = 200, json = JObj [(''success'', JBool True), (''transactions'', JArr transactions)]\<rparr>,
               s\<lparr>world := w'\<rparr>)
          | (Inl e, w') \<Rightarrow>
              (\<lparr>status = 500,
                json = JObj [(''success'', JBool False), (''error'', JStr (message e))]\<rparr>,
               s\<lparr>world := w'\<rparr>))"
    by (intro allI impI conjI post_api_create_token_eq post_api_issue_badge_eq
        post_api_transfer_eq get_api_token_balances_eq get_api_transactions_eq)
  show ?thesis
    by (intro conjI health wallet_status program_info r1 r2 r3 r4 r5 eqs)
qed

theorem success_field_of_routes_witness:
  "solanaService demo_server = Some demo_service
   \<and> issueBadge (demo_sdk True) demo_service (get_prop (body demo_request) ''mintAddress'')
       (get_prop (body demo_request) ''recipientAddress'') (world demo_server)
     = (Inr (), [])
   \<and> post_api_issue_badge (demo_sdk True) demo_request demo_server =
       (\<lparr>status = 200, json = JObj [(''success'', JBool True)]\<rparr>,
        demo_server\<lparr>world := []\<rparr>)
   \<and> getTokenBalances (demo_sdk False) demo_service
       (get_prop (query demo_request) ''ownerAddress'') (world demo_server)
     = (Inl (Error ''failed to get info''), [])
   \<and> get_api_token_balances (demo_sdk False) demo_request demo_server =
       (\<lparr>status = 500,
         json = JObj [(''success'', JBool False), (''error'', JStr ''failed to get info'')]\<rparr>,
        demo_server\<lparr>world := []\<rparr>)"
proof -
  have svc: "solanaService demo_server = Some demo_service"
    by (simp add: demo_server_def)
  have a1: "issueBadge (demo_sdk True) demo_service (get_prop (body demo_request) ''mintAddress'')
       (get_prop (body demo_request) ''recipientAddress'') (world demo_server)
     = (Inr (), [])"
    by (simp add: service_defs io_defs demo_defs)
  have a2: "getTokenBalances (demo_sdk False) demo_service
       (get_prop (query demo_request) ''ownerAddress'') (world demo_server)
     = (Inl (Error ''failed to get info''), [])"
    by (simp add: service_defs io_defs demo_defs)
  note t = success_field_of_routes [THEN conjunct2, THEN conjunct2, THEN conjunct2,
      THEN conjunct2, THEN conjunct2, THEN conjunct2, THEN conjunct2, THEN conjunct2,
      rule_format, OF svc]
  from t [of "demo_sdk True" demo_request, THEN conjunct2, THEN conjunct1] a1
  have c1: "post_api_issue_badge (demo_sdk True) demo_request demo_server =
       (\<lparr>status = 200, json = JObj [(''success'', JBool True)]\<rparr>,
        demo_server\<lparr>world := []\<rparr>)"
    by simp
  from t [of "demo_sdk False" demo_request, THEN conjunct2, THEN conjunct2, THEN conjunct2,
      THEN conjunct1] a2
  have c2: "get_api_token_balances (demo_sdk False) demo_request demo_server =
       (\<lparr>status = 500,
         json = JObj [(''success'', JBool False), (''error'', JStr ''failed to get info'')]\<rparr>,
        demo_server\<lparr>world := []\<rparr>)"
    by simp
  show ?thesis
    by (intro conjI svc a1 c1 a2 c2)
qed

text \<open>The claim as stated fails on health, whose body is \<open>{ status: 'OK' }\<close>.\<close>

theorem success_field_counterexample:
  "(GET, ''/api/health'') \<in> set documented_surface
   \<and> fst (handle (demo_sdk True) demo_globals GET ''/api/health'' demo_request demo_server)
     = \<lparr>status = 200, json = JObj [(''status'', JStr ''OK'')]\<rparr>
   \<and> \<not> has_property
         (json (fst (handle (demo_sdk True) demo_globals GET ''/api/health'' demo_request
                       demo_server)))
         ''success''"
  by (simp add: documented_surface_def handle_def routes_def path_matches_def to_lower_def
      get_api_health_def res_json_def)

section \<open>The registered routes\<close>

text \<open>
  C3 (as amended). The server registers nine routes: the eight of the documented surface
  and \<open>GET /api/server-wallet-transactions\<close>, which is reachable and answered by its own
  handler. A GET or POST request whose path matches none of the paths registered for its
  method reaches no route of the program (it is left to the 404 of Express).
\<close>

theorem registered_routes:
  "map (\<lambda>(m, route_path, h). (m, route_path)) (routes sdk g) =
     [(POST, ''/api/create-token''),
      (POST, ''/api/issue-badge''),
      (POST, ''/api/transfer''),
      (GET, ''/api/token-balances''),
      (GET, ''/api/transactions''),
      (GET, ''/api/server-wallet-transactions''),
      (GET, ''/api/health''),
      (GET, ''/api/wallet-status''),
      (GET, ''/api/program-info'')]
   \<and> set (map (\<lambda>(m, route_path, h). (m, route_path)) (routes sdk g))
     = set documented_surface \<union> {(GET, ''/api/server-wallet-transactions'')}
   \<and> handle sdk g GET ''/api/server-wallet-transactions'' req s
     = get_api_server_wallet_transactions sdk req s
   \<and> (\<not> (\<exists>route_path.
            (m, route_path) \<in> set (map (\<lambda>(m, route_path, h). (m, route_path)) (routes sdk g))
          \<and> path_matches route_path p) \<longrightarrow>
        handle sdk g m p req s = (\<lparr>status = 404, json = JUndefined\<rparr>, s))"
proof -
  have none: "\<not> (\<exists>route_path.
            (m, route_path) \<in> set (map (\<lambda>(m, route_path, h). (m, route_path)) (routes sdk g))
          \<and> path_matches route_path p) \<longrightarrow>
        handle sdk g m p req s = (\<lparr>status = 404, json = JUndefined\<rparr>, s)"
  proof
    assume a: "\<not> (\<exists>route_path.
            (m, route_path) \<in> set (map (\<lambda>(m, route_path, h). (m, route_path)) (routes sdk g))
          \<and> path_matches route_path p)"
    have "find (\<lambda>(m', route_path, h). m' = m \<and> path_matches route_path p) (routes sdk g) = None"
      using a by (force simp add: find_None_iff)
    then show "handle sdk g m p req s = (\<lparr>status = 404, json = JUndefined\<rparr>, s)"
      by (simp add: handle_def res_status_json_def)
  qed
  have own: "handle sdk g GET ''/api/server-wallet-transactions'' req s
     = get_api_server_wallet_transactions sdk req s"
    by (simp add: routes_def handle_def path_matches_def to_lower_def)
  show ?thesis
    by (intro conjI none own) (auto simp add: routes_def documented_surface_def)
qed

theorem registered_routes_witness:
  "\<not> (\<exists>route_path.
         (GET, route_path)
           \<in> set (map (\<lambda>(m, route_path, h). (m, route_path)) (routes (demo_sdk True) demo_globals))
       \<and> path_matches route_path ''/health'')
   \<and> handle (demo_sdk True) demo_globals GET ''/health'' demo_request demo_server
     = (\<lparr>status = 404, json = JUndefined\<rparr>, demo_server)"
proof -
  have a: "\<not> (\<exists>route_path.
         (GET, route_path)
           \<in> set (map (\<lambda>(m, route_path, h). (m, route_path)) (routes (demo_sdk True) demo_globals))
       \<and> path_matches route_path ''/health'')"
    by (auto simp add: routes_def path_matches_def to_lower_def)
  from registered_routes [of "demo_sdk True" demo_globals demo_request demo_server GET "''/health''"]
  have "\<not> (\<exists>route_path.
         (GET, route_path)
           \<in> set (map (\<lambda>(m, route_path, h). (m, route_path)) (routes (demo_sdk True) demo_globals))
       \<and> path_matches route_path ''/health'') \<longrightarrow>
     handle (demo_sdk True) demo_globals GET ''/health'' demo_request demo_server
     = (\<lparr>status = 404, json = JUndefined\<rparr>, demo_server)"
    by (elim conjE)
  with a show ?thesis
    by (intro conjI) (assumption, erule (1) mp)
qed

text \<open>
  The claim as stated fails on \<open>GET /api/server-wallet-transactions\<close>: it is not one of
  the eight, and the server answers it with the transactions of its own wallet.
\<close>

theorem documented_surface_counterexample:
  "(GET, ''/api/server-wallet-transactions'') \<notin> set documented_surface
   \<and> handle (demo_sdk True) demo_globals GET ''/api/server-wallet-transactions'' empty_request
       demo_server
     = (\<lparr>status = 200,
         json = JObj
           [(''success'', JBool True),
            (''transactions'',
             JArr
              [JObj
                [(''signature'', JStr ''s1''),
                 (''timestamp'', JNum (Fin 1700000000000)),
                 (''status'', JStr ''confirmed''), (''type'', JStr ''Unknown''),
                 (''description'', JStr [])],
               JObj
                [(''signature'', JStr ''s3''),
                 (''timestamp'', JNum (Fin 1700000005000)),
                 (''status'', JStr ''failed''), (''type'', JStr ''Unknown''),
                 (''description'', JStr [])]])]\<rparr>,
        demo_server)"
  by (simp add: documented_surface_def handle_def routes_def path_matches_def to_lower_def
      get_api_server_wallet_transactions_def route_defs service_defs io_defs demo_defs
      field_ToNumber_def js_round_numeral)

section \<open>No state of its own\<close>

text \<open>
  C4. Whatever requests the server handles, on whatever routes, the module variable
  \<open>solanaService\<close> (hence the \<open>connection\<close> and \<open>program\<close> fields of the one service
  object, and the wallet they hold) is afterwards what it was before; so the answer to a
  request after any history of requests is the answer the server gives from its first
  state with the world the SDK has reached: it depends on the earlier requests only
  through the responses of the SDK.
\<close>

theorem service_unchanged_by_requests:
  "solanaService (snd (serve sdk g reqs s)) = solanaService s
   \<and> handle sdk g m p req (snd (serve sdk g reqs s))
     = handle sdk g m p req (s\<lparr>world := world (snd (serve sdk g reqs s))\<rparr>)"
proof -
  have same: "snd (serve sdk g reqs s) = s\<lparr>world := world (snd (serve sdk g reqs s))\<rparr>"
    by (rule server.equality) (simp_all add: serve_service)
  have "handle sdk g m p req (snd (serve sdk g reqs s))
     = handle sdk g m p req (s\<lparr>world := world (snd (serve sdk g reqs s))\<rparr>)"
    by (rule arg_cong [OF same])
  then show ?thesis
    by (simp add: serve_service)
qed

section \<open>The transfer instruction\<close>

text \<open>
  C5 (as amended). When \<open>transferTokens\<close> has got the two token accounts, the address of
  the extra-account-meta list and the transfer instruction from the SDK's
  \<open>createTransferCheckedWithTransferHookInstruction\<close>, the transaction it submits holds
  one instruction: the one the SDK returned, with its program id and data, and with two
  accounts appended to its keys by this program, the transfer hook program id and the
  extra-account-meta list address, neither a signer nor writable. The method resolves or
  rejects as \<open>sendAndConfirm\<close> does on that transaction.
\<close>

theorem transfer_instruction_submitted:
  assumes "newPublicKey sdk mintAddress = Inr mintKey"
    and "newPublicKey sdk recipientAddress = Inr recipientKey"
    and "getOrCreateAssociatedTokenAccount sdk (connection this)
           (payer (wallet (provider (program this)))) mintKey
           (wallet_publicKey (wallet (provider (program this)))) False ''confirmed''
           (TOKEN_2022_PROGRAM_ID sdk) w = (Inr sourceATA, w1)"
    and "getOrCreateAssociatedTokenAccount sdk (connection this)
           (payer (wallet (provider (program this)))) mintKey recipientKey False ''confirmed''
           (TOKEN_2022_PROGRAM_ID sdk) w1 = (Inr destinationATA, w2)"
    and "findProgramAddressSync sdk [Buffer_from ''extra-account-metas'', toBuffer mintKey]
           (programId (program this)) = Inr (extraAccountMetaListPDA, bump)"
    and "createTransferCheckedWithTransferHookInstruction sdk (connection this)
           (address sourceATA) mintKey (address destinationATA)
           (wallet_publicKey (wallet (provider (program this))))
           (js_mul (ToNumber sdk amount_arg) ten_pow_9) 9 [] ''confirmed''
           (TOKEN_2022_PROGRAM_ID sdk) w2 = (Inr transferInstruction, w3)"
  shows "transferTokens sdk g this mintAddress recipientAddress amount_arg w =
           (case sendAndConfirm sdk (provider (program this))
                   [transferInstruction
                      \<lparr>keys := keys transferInstruction @
                         [\<lparr>pubkey = TRANSFER_HOOK_PROGRAM_ID g, isSigner = False,
                           isWritable = False\<rparr>,
                          \<lparr>pubkey = extraAccountMetaListPDA, isSigner = False, isWritable = False\<rparr>]\<rparr>]
                   [payer (wallet (provider (program this)))] w3 of
              (Inl e, w4) \<Rightarrow> (Inl e, w4)
            | (Inr sig, w4) \<Rightarrow> (Inr (), w4))"
  using assms
  by (simp add: transferTokens_def io_defs Let_def split: prod.splits sum.splits)

theorem transfer_instruction_submitted_witness:
  "newPublicKey (demo_sdk True) (JStr ''M'') = Inr (PublicKey [77])
   \<and> newPublicKey (demo_sdk True) (JStr ''R'') = Inr (PublicKey [82])
   \<and> getOrCreateAssociatedTokenAccount (demo_sdk True) (connection demo_service)
       (payer (wallet (provider (program demo_service)))) (PublicKey [77])
       (wallet_publicKey (wallet (provider (program demo_service)))) False ''confirmed''
       (TOKEN_2022_PROGRAM_ID (demo_sdk True)) []
     = (Inr \<lparr>address = PublicKey [77, 66], mint = PublicKey [77], amount = 0\<rparr>, [])
   \<and> getOrCreateAssociatedTokenAccount (demo_sdk True) (connection demo_service)
       (payer (wallet (provider (program demo_service)))) (PublicKey [77]) (PublicKey [82])
       False ''confirmed'' (TOKEN_2022_PROGRAM_ID (demo_sdk True)) []
     = (Inr \<lparr>address = PublicKey [77, 82], mint = PublicKey [77], amount = 0\<rparr>, [])
   \<and> findProgramAddressSync (demo_sdk True)
       [Buffer_from ''extra-account-metas'', toBuffer (PublicKey [77])]
       (programId (program demo_service))
     = Inr (demo_extraAccountMetaListPDA, 255)
   \<and> createTransferCheckedWithTransferHookInstruction (demo_sdk True) (connection demo_service)
       (address \<lparr>address = PublicKey [77, 66], mint = PublicKey [77], amount = 0\<rparr>)
       (PublicKey [77])
       (address \<lparr>address = PublicKey [77, 82], mint = PublicKey [77], amount = 0\<rparr>)
       (wallet_publicKey (wallet (provider (program demo_service))))
       (js_mul (ToNumber (demo_sdk True) (JNum (Fin 5))) ten_pow_9) 9 [] ''confirmed''
       (TOKEN_2022_PROGRAM_ID (demo_sdk True)) []
     = (Inr demo_transferInstruction, [])
   \<and> transferTokens (demo_sdk True) demo_globals demo_service (JStr ''M'') (JStr ''R'')
       (JNum (Fin 5)) []
     = (Inr (),
        [[demo_transferInstruction
              \<lparr>keys := keys demo_transferInstruction @
                 [\<lparr>pubkey = TRANSFER_HOOK_PROGRAM_ID demo_globals, isSigner = False,
                   isWritable = False\<rparr>,
                  \<lparr>pubkey = demo_extraAccountMetaListPDA, isSigner = False,
                   isWritable = False\<rparr>]\<rparr>]])"
proof -
  have h1: "newPublicKey (demo_sdk True) (JStr ''M'') = Inr (PublicKey [77])"
    by (simp add: demo_defs io_defs Buffer_from_def wallet_publicKey_def)
  have h2: "newPublicKey (demo_sdk True) (JStr ''R'') = Inr (PublicKey [82])"
    by (simp add: demo_defs io_defs Buffer_from_def wallet_publicKey_def)
  have h3: "getOrCreateAssociatedTokenAccount (demo_sdk True) (connection demo_service)
       (payer (wallet (provider (program demo_service)))) (PublicKey [77])
       (wallet_publicKey (wallet (provider (program demo_service)))) False ''confirmed''
       (TOKEN_2022_PROGRAM_ID (demo_sdk True)) []
     = (Inr \<lparr>address = PublicKey [77, 66], mint = PublicKey [77], amount = 0\<rparr>, [])"
    by (simp add: demo_defs io_defs Buffer_from_def wallet_publicKey_def)
  have h4: "getOrCreateAssociatedTokenAccount (demo_sdk True) (connection demo_service)
       (payer (wallet (provider (program demo_service)))) (PublicKey [77]) (PublicKey [82])
       False ''confirmed'' (TOKEN_2022_PROGRAM_ID (demo_sdk True)) []
     = (Inr \<lparr>address = PublicKey [77, 82], mint = PublicKey [77], amount = 0\<rparr>, [])"
    by (simp add: demo_defs io_defs Buffer_from_def wallet_publicKey_def)
  have h5: "findProgramAddressSync (demo_sdk True)
       [Buffer_from ''extra-account-metas'', toBuffer (PublicKey [77])]
       (programId (program demo_service))
     = Inr (demo_extraAccountMetaListPDA, 255)"
    by (simp add: demo_defs io_defs Buffer_from_def wallet_publicKey_def)
  have h6: "createTransferCheckedWithTransferHookInstruction (demo_sdk True) (connection demo_service)
       (address \<lparr>address = PublicKey [77, 66], mint = PublicKey [77], amount = 0\<rparr>)
       (PublicKey [77])
       (address \<lparr>address = PublicKey [77, 82], mint = PublicKey [77], amount = 0\<rparr>)
       (wallet_publicKey (wallet (provider (program demo_service))))
       (js_mul (ToNumber (demo_sdk True) (JNum (Fin 5))) ten_pow_9) 9 [] ''confirmed''
       (TOKEN_2022_PROGRAM_ID (demo_sdk True)) []
     = (Inr demo_transferInstruction, [])"
    by (simp add: demo_defs io_defs Buffer_from_def wallet_publicKey_def)
  have send: "sendAndConfirm (demo_sdk True) p tx signers w = (Inr ''5sig'', w @ [tx])"
    for p tx signers w
    by (simp add: demo_sdk_def)
  from transfer_instruction_submitted [OF h1 h2 h3 h4 h5 h6, of demo_globals]
  have "transferTokens (demo_sdk True) demo_globals demo_service (JStr ''M'') (JStr ''R'')
       (JNum (Fin 5)) []
     = (Inr (),
        [[demo_transferInstruction
              \<lparr>keys := keys demo_transferInstruction @
                 [\<lparr>pubkey = TRANSFER_HOOK_PROGRAM_ID demo_globals, isSigner = False,
                   isWritable = False\<rparr>,
                  \<lparr>pubkey = demo_extraAccountMetaListPDA, isSigner = False,
                   isWritable = False\<rparr>]\<rparr>]])"
    by (simp add: send)
  with h1 h2 h3 h4 h5 h6 show ?thesis
    by (intro conjI)
qed

text \<open>
  The claim as stated fails on a transfer: the instruction submitted has six keys where the
  SDK returned four.
\<close>

theorem transfer_instruction_counterexample:
  "createTransferCheckedWithTransferHookInstruction (demo_sdk True) (connection demo_service)
       (address \<lparr>address = PublicKey [77, 66], mint = PublicKey [77], amount = 0\<rparr>)
       (PublicKey [77])
       (address \<lparr>address = PublicKey [77, 82], mint = PublicKey [77], amount = 0\<rparr>)
       (wallet_publicKey (wallet (provider (program demo_service))))
       (js_mul (ToNumber (demo_sdk True) (JNum (Fin 5))) ten_pow_9) 9 [] ''confirmed''
       (TOKEN_2022_PROGRAM_ID (demo_sdk True)) []
     = (Inr demo_transferInstruction, [])
   \<and> world (snd (post_api_transfer (demo_sdk True) demo_globals demo_request demo_server))
     = [[demo_transferInstruction
              \<lparr>keys := keys demo_transferInstruction @
                 [\<lparr>pubkey = TRANSFER_HOOK_PROGRAM_ID demo_globals, isSigner = False,
                   isWritable = False\<rparr>,
                  \<lparr>pubkey = demo_extraAccountMetaListPDA, isSigner = False,
                   isWritable = False\<rparr>]\<rparr>]]
   \<and> world (snd (post_api_transfer (demo_sdk True) demo_globals demo_request demo_server))
     \<noteq> [[demo_transferInstruction]]
   \<and> length (keys demo_transferInstruction) = 4
   \<and> length (keys (hd (hd (world (snd (post_api_transfer (demo_sdk True) demo_globals
                                          demo_request demo_server)))))) = 6"
  by (simp add: post_api_transfer_def route_defs service_defs io_defs demo_defs Let_def)

section \<open>The mint address of create-token\<close>

text \<open>
  C6. Whenever create-token answers with status 200, the body is
  \<open>{ success: true, mintAddress }\<close> where \<open>mintAddress\<close> is the string the SDK gives for
  the public key of the keypair that \<open>Keypair.generate\<close> returned for this request. The
  transaction that was submitted and confirmed, signed by that keypair, creates the
  account of that key and initialises the transfer hook and the mint (9 decimals) at that
  key; the extra-account-meta list of that mint was initialised after it, and the server
  is left with the world that call produced.
\<close>

theorem create_token_success:
  assumes "status (fst (post_api_create_token sdk req s)) = 200"
  shows "\<exists>this mintKeypair w0 rent w1 sig w2 extraAccountMetaListPDA bump sig' w3.
           solanaService s = Some this
         \<and> Keypair_generate sdk (world s) = (mintKeypair, w0)
         \<and> getMinimumBalanceForRentExemption sdk (connection this)
              (getMintLen sdk [TransferHook]) w0 = (Inr rent, w1)
         \<and> sendAndConfirm sdk (provider (program this))
                [SystemProgram_createAccount sdk
                   \<lparr>fromPubkey = wallet_publicKey (wallet (provider (program this))),
                    newAccountPubkey = publicKey mintKeypair,
                    space = getMintLen sdk [TransferHook],
                    lamports = rent,
                    owner_programId = TOKEN_2022_PROGRAM_ID sdk\<rparr>,
                 createInitializeTransferHookInstruction sdk
                   (publicKey mintKeypair)
                   (wallet_publicKey (wallet (provider (program this))))
                   (programId (program this))
                   (TOKEN_2022_PROGRAM_ID sdk),
                 createInitializeMintInstruction sdk
                   (publicKey mintKeypair)
                   9
                   (wallet_publicKey (wallet (provider (program this))))
                   None
                   (TOKEN_2022_PROGRAM_ID sdk)]
                [mintKeypair] w1 = (Inr sig, w2)
         \<and> findProgramAddressSync sdk
              [Buffer_from ''extra-account-metas'', toBuffer (publicKey mintKeypair)]
              (programId (program this)) = Inr (extraAccountMetaListPDA, bump)
         \<and> initializeExtraAccountMetaList_rpc sdk (program this)
              \<lparr>eam_payer = wallet_publicKey (wallet (provider (program this))),
                          eam_mint = publicKey mintKeypair,
                          extraAccountMetaList = extraAccountMetaListPDA,
                          eam_systemProgram = SystemProgram_programId sdk\<rparr>
              w2 = (Inr sig', w3)
         \<and> post_api_create_token sdk req s =
             (\<lparr>status = 200,
               json = JObj [(''success'', JBool True),
                            (''mintAddress'',
                               JStr (PublicKey_toString sdk (publicKey mintKeypair)))]\<rparr>,
              s\<lparr>world := w3\<rparr>)"
proof (cases "solanaService s")
  case None
  with assms show ?thesis
    by (simp add: post_api_create_token_def res_status_json_def)
next
  case (Some this)
  obtain r w' where r: "createTokenMint sdk this (world s) = (r, w')"
    by (cases "createTokenMint sdk this (world s)") auto
  show ?thesis
  proof (cases r)
    case (Inl e)
    with assms Some r show ?thesis
      by (simp add: post_api_create_token_eq)
  next
    case (Inr mintAddress)
    with r have ok: "createTokenMint sdk this (world s) = (Inr mintAddress, w')"
      by simp
    from Some ok have resp: "post_api_create_token sdk req s =
        (\<lparr>status = 200,
          json = JObj [(''success'', JBool True), (''mintAddress'', JStr mintAddress)]\<rparr>,
         s\<lparr>world := w'\<rparr>)"
      by (simp add: post_api_create_token_eq)
    from createTokenMint_success [OF ok]
    obtain mintKeypair w0 rent w1 sig w2 extraAccountMetaListPDA bump sig' where
      k: "Keypair_generate sdk (world s) = (mintKeypair, w0)"
      and m: "getMinimumBalanceForRentExemption sdk (connection this)
              (getMintLen sdk [TransferHook]) w0 = (Inr rent, w1)"
      and t: "sendAndConfirm sdk (provider (program this))
                [SystemProgram_createAccount sdk
                   \<lparr>fromPubkey = wallet_publicKey (wallet (provider (program this))),
                    newAccountPubkey = publicKey mintKeypair,
                    space = getMintLen sdk [TransferHook],
                    lamports = rent,
                    owner_programId = TOKEN_2022_PROGRAM_ID sdk\<rparr>,
                 createInitializeTransferHookInstruction sdk
                   (publicKey mintKeypair)
                   (wallet_publicKey (wallet (provider (program this))))
                   (programId (program this))
                   (TOKEN_2022_PROGRAM_ID sdk),
                 createInitializeMintInstruction sdk
                   (publicKey mintKeypair)
                   9
                   (wallet_publicKey (wallet (provider (program this))))
                   None
                   (TOKEN_2022_PROGRAM_ID sdk)]
                [mintKeypair] w1 = (Inr sig, w2)"
      and p: "findProgramAddressSync sdk
              [Buffer_from ''extra-account-metas'', toBuffer (publicKey mintKeypair)]
              (programId (program this)) = Inr (extraAccountMetaListPDA, bump)"
      and i: "initializeExtraAccountMetaList_rpc sdk (program this)
              \<lparr>eam_payer = wallet_publicKey (wallet (provider (program this))),
                          eam_mint = publicKey mintKeypair,
                          extraAccountMetaList = extraAccountMetaListPDA,
                          eam_systemProgram = SystemProgram_programId sdk\<rparr>
              w2 = (Inr sig', w')"
      and a: "mintAddress = PublicKey_toString sdk (publicKey mintKeypair)"
      by (elim exE conjE) (rule that; assumption)
    from resp a have "post_api_create_token sdk req s =
             (\<lparr>status = 200,
               json = JObj [(''success'', JBool True),
                            (''mintAddress'',
                               JStr (PublicKey_toString sdk (publicKey mintKeypair)))]\<rparr>,
              s\<lparr>world := w'\<rparr>)"
      by simp
    with Some k m t p i show ?thesis
      by blast
  qed
qed

theorem create_token_success_witness:
  "status (fst (post_api_create_token (demo_sdk True) demo_request demo_server)) = 200
   \<and> (\<exists>mintKeypair w0 w3.
          Keypair_generate (demo_sdk True) (world demo_server) = (mintKeypair, w0)
        \<and> post_api_create_token (demo_sdk True) demo_request demo_server =
             (\<lparr>status = 200,
               json = JObj [(''success'', JBool True),
                            (''mintAddress'',
                               JStr (PublicKey_toString (demo_sdk True)
                                       (publicKey mintKeypair)))]\<rparr>,
              demo_server\<lparr>world := w3\<rparr>))"
proof -
  have ok: "status (fst (post_api_create_token (demo_sdk True) demo_request demo_server)) = 200"
    by (simp add: post_api_create_token_def route_defs service_defs io_defs demo_defs Let_def)
  from create_token_success [OF ok] ok show ?thesis
    by blast
qed

section \<open>Token balances\<close>

text \<open>
  C7. Whenever the token-balances route answers with status 200, the service exists, the
  owner address was accepted as a public key, the SDK returned the token accounts of that
  owner, and the body is \<open>{ success: true, balances }\<close> where \<open>balances\<close> has one entry
  for each of these accounts, in their order: the entry of an account holds exactly the
  fields \<open>mint\<close> (the account's mint as a string), \<open>amount\<close> (\<open>Number\<close> of the account's
  amount), \<open>decimals\<close> (of the mint), \<open>isTransferHookEnabled\<close> (whether the mint's
  \<open>transferHookProgramId\<close> is not \<open>null\<close>) and \<open>symbol\<close> (the empty string), built
  from the SDK's answers for that account and its mint.
\<close>

theorem token_balances_success:
  assumes "status (fst (get_api_token_balances sdk req s)) = 200"
  shows "\<exists>svc ownerPublicKey tokenAccounts w1 infos w'.
           solanaService s = Some svc
         \<and> newPublicKey sdk (get_prop (query req) ''ownerAddress'') = Inr ownerPublicKey
         \<and> getTokenAccountsByOwner sdk (connection svc) ownerPublicKey
              (TOKEN_2022_PROGRAM_ID sdk) (world s) = (Inr tokenAccounts, w1)
         \<and> getTokenBalances_responses sdk svc tokenAccounts w1 = (Inr infos, w')
         \<and> length infos = length tokenAccounts
         \<and> get_api_token_balances sdk req s =
             (\<lparr>status = 200,
               json = JObj
                 [(''success'', JBool True),
                  (''balances'', JArr (map (\<lambda>(accountInfo, mintInfo).
                     JObj [(''mint'', JStr (PublicKey_toString sdk (mint accountInfo))),
                           (''amount'', JNum (Number_of_bigint (uint (amount accountInfo)))),
                           (''decimals'', JNum (Fin (of_nat (decimals mintInfo)))),
                           (''isTransferHookEnabled'',
                              JBool (transferHookProgramId mintInfo \<noteq> Null)),
                           (''symbol'', JStr [])]) infos))]\<rparr>,
              s\<lparr>world := w'\<rparr>)"
proof (cases "solanaService s")
  case None
  with assms show ?thesis
    by (simp add: get_api_token_balances_def res_status_json_def)
next
  case (Some svc)
  let ?owner = "get_prop (query req) ''ownerAddress''"
  show ?thesis
  proof (cases "newPublicKey sdk ?owner")
    case (Inl e)
    with assms Some show ?thesis
      by (simp add: get_api_token_balances_def getTokenBalances_def try_respond_def
          res_status_json_def io_defs)
  next
    case (Inr ownerPublicKey)
    obtain r1 w1 where r1: "getTokenAccountsByOwner sdk (connection svc) ownerPublicKey
              (TOKEN_2022_PROGRAM_ID sdk) (world s) = (r1, w1)"
      by (cases "getTokenAccountsByOwner sdk (connection svc) ownerPublicKey
              (TOKEN_2022_PROGRAM_ID sdk) (world s)") auto
    show ?thesis
    proof (cases r1)
      case (Inl e)
      with assms Some Inr r1 show ?thesis
        by (simp add: get_api_token_balances_def getTokenBalances_def try_respond_def
            res_status_json_def io_defs)
    next
      case tokenAccounts: (Inr tokenAccounts)
      obtain r2 w2 where r2: "getTokenBalances_responses sdk svc tokenAccounts w1 = (r2, w2)"
        by (cases "getTokenBalances_responses sdk svc tokenAccounts w1") auto
      show ?thesis
      proof (cases r2)
        case (Inl e)
        with assms Some Inr r1 tokenAccounts r2 show ?thesis
          by (simp add: get_api_token_balances_def getTokenBalances_def try_respond_def
              res_status_json_def getTokenBalances_loop_responses io_defs)
      next
        case infos: (Inr infos)
        from r2 infos have len: "length infos = length tokenAccounts"
          by (simp add: getTokenBalances_responses_length)
        from Some Inr r1 tokenAccounts r2 infos
        have "get_api_token_balances sdk req s =
             (\<lparr>status = 200,
               json = JObj
                 [(''success'', JBool True),
                  (''balances'', JArr (map (\<lambda>(accountInfo, mintInfo).
                     JObj [(''mint'', JStr (PublicKey_toString sdk (mint accountInfo))),
                           (''amount'', JNum (Number_of_bigint (uint (amount accountInfo)))),
                           (''decimals'', JNum (Fin (of_nat (decimals mintInfo)))),
                           (''isTransferHookEnabled'',
                              JBool (transferHookProgramId mintInfo \<noteq> Null)),
                           (''symbol'', JStr [])]) infos))]\<rparr>,
              s\<lparr>world := w2\<rparr>)"
          by (simp add: get_api_token_balances_def getTokenBalances_def try_respond_def
              res_json_def getTokenBalances_loop_responses io_defs)
        with Some Inr r1 tokenAccounts r2 infos len show ?thesis by blast
      qed
    qed
  qed
qed

theorem token_balances_success_witness:
  "status (fst (get_api_token_balances (demo_sdk True) demo_request demo_server)) = 200
   \<and> (\<exists>tokenAccounts infos w1 w'.
          getTokenBalances_responses (demo_sdk True) demo_service tokenAccounts w1 = (Inr infos, w')
        \<and> length infos = length tokenAccounts
        \<and> fst (get_api_token_balances (demo_sdk True) demo_request demo_server) =
             \<lparr>status = 200,
               json = JObj
                 [(''success'', JBool True),
                  (''balances'', JArr (map (\<lambda>(accountInfo, mintInfo).
                     JObj [(''mint'', JStr (PublicKey_toString (demo_sdk True) (mint accountInfo))),
                           (''amount'', JNum (Number_of_bigint (uint (amount accountInfo)))),
                           (''decimals'', JNum (Fin (of_nat (decimals mintInfo)))),
                           (''isTransferHookEnabled'',
                              JBool (transferHookProgramId mintInfo \<noteq> Null)),
                           (''symbol'', JStr [])]) infos))]\<rparr>)"
proof -
  have ok: "status (fst (get_api_token_balances (demo_sdk True) demo_request demo_server)) = 200"
    by (simp add: get_api_token_balances_def getTokenBalances_def try_respond_def
        res_json_def get_prop_def io_defs demo_defs)
  have svc: "solanaService demo_server = Some demo_service"
    by (simp add: demo_server_def)
  from token_balances_success [OF ok] svc ok show ?thesis
    by fastforce
qed

section \<open>The raw amount of a transfer\<close>

text \<open>
  C8. For a transfer whose amount is the number \<open>n\<close>, the amount handed to the SDK is
  the JavaScript product of \<open>n\<close> and \<open>10^9\<close>: to \<open>transfer\<close> in the second variant of the
  server, and to \<open>createTransferCheckedWithTransferHookInstruction\<close>, together with 9 for
  the decimals, in the first. For a natural number \<open>a\<close> with \<open>a * 10^9 < 2^53\<close> that
  product is exactly \<open>a * 10^9\<close>.
\<close>

theorem transfer_raw_amount:
  assumes "newPublicKey sdk mintAddress = Inr mintKey"
    and "newPublicKey sdk recipientAddress = Inr recipientKey"
    and "getOrCreateAssociatedTokenAccount sdk (connection this)
           (payer (wallet (provider (program this)))) mintKey
           (wallet_publicKey (wallet (provider (program this)))) False ''confirmed''
           (TOKEN_2022_PROGRAM_ID sdk) w = (Inr sourceATA, w1)"
    and "getOrCreateAssociatedTokenAccount sdk (connection this)
           (payer (wallet (provider (program this)))) mintKey recipientKey False ''confirmed''
           (TOKEN_2022_PROGRAM_ID sdk) w1 = (Inr destinationATA, w2)"
  shows "transferTokens_v2 sdk this mintAddress recipientAddress (JNum n) w =
           (case transfer sdk (connection this) (payer (wallet (provider (program this))))
                   (address sourceATA) (address destinationATA)
                   (wallet_publicKey (wallet (provider (program this))))
                   (js_mul n (Fin (10 ^ 9))) [] (TOKEN_2022_PROGRAM_ID sdk) w2 of
              (Inl e, w3) \<Rightarrow> (Inl e, w3)
            | (Inr sig, w3) \<Rightarrow> (Inr (), w3))
       \<and> (\<forall>extraAccountMetaListPDA bump.
            findProgramAddressSync sdk [Buffer_from ''extra-account-metas'', toBuffer mintKey]
              (programId (program this)) = Inr (extraAccountMetaListPDA, bump) \<longrightarrow>
            transferTokens sdk g this mintAddress recipientAddress (JNum n) w =
              (case createTransferCheckedWithTransferHookInstruction sdk (connection this)
                      (address sourceATA) mintKey (address destinationATA)
                      (wallet_publicKey (wallet (provider (program this))))
                      (js_mul n (Fin (10 ^ 9))) 9 [] ''confirmed''
                      (TOKEN_2022_PROGRAM_ID sdk) w2 of
                 (Inl e, w3) \<Rightarrow> (Inl e, w3)
               | (Inr transferInstruction, w3) \<Rightarrow>
                   (case sendAndConfirm sdk (provider (program this))
                   [transferInstruction
                      \<lparr>keys := keys transferInstruction @
                         [\<lparr>pubkey = TRANSFER_HOOK_PROGRAM_ID g, isSigner = False,
                           isWritable = False\<rparr>,
                          \<lparr>pubkey = extraAccountMetaListPDA, isSigner = False, isWritable = False\<rparr>]\<rparr>]
                   [payer (wallet (provider (program this)))] w3 of
              (Inl e, w4) \<Rightarrow> (Inl e, w4)
            | (Inr sig, w4) \<Rightarrow> (Inr (), w4))))
       \<and> (\<forall>a::nat. a * 10 ^ 9 < 2 ^ 53 \<longrightarrow>
            js_mul (Fin (of_nat a)) (Fin (10 ^ 9)) = Fin (of_nat (a * 10 ^ 9)))"
proof -
  have exact: "\<forall>a::nat. a * 10 ^ 9 < 2 ^ 53 \<longrightarrow>
            js_mul (Fin (of_nat a)) (Fin (10 ^ 9)) = Fin (of_nat (a * 10 ^ 9))"
  proof (intro allI impI)
    fix a :: nat
    assume "a * 10 ^ 9 < 2 ^ 53"
    from js_mul_nat_exact [OF this] show
      "js_mul (Fin (of_nat a)) (Fin (10 ^ 9)) = Fin (of_nat (a * 10 ^ 9))"
      by simp
  qed
  from assms show ?thesis
    by (intro conjI exact)
      (simp_all add: transferTokens_def transferTokens_v2_def ToNumber_def ten_pow_9_def
        io_defs Let_def split: prod.splits sum.splits)
qed

theorem transfer_raw_amount_witness:
  "newPublicKey (demo_sdk True) (JStr ''M'') = Inr (PublicKey [77])
   \<and> newPublicKey (demo_sdk True) (JStr ''R'') = Inr (PublicKey [82])
   \<and> getOrCreateAssociatedTokenAccount (demo_sdk True) (connection demo_service)
       (payer (wallet (provider (program demo_service)))) (PublicKey [77])
       (wallet_publicKey (wallet (provider (program demo_service)))) False ''confirmed''
       (TOKEN_2022_PROGRAM_ID (demo_sdk True)) []
     = (Inr \<lparr>address = PublicKey [77, 66], mint = PublicKey [77], amount = 0\<rparr>, [])
   \<and> getOrCreateAssociatedTokenAccount (demo_sdk True) (connection demo_service)
       (payer (wallet (provider (program demo_service)))) (PublicKey [77]) (PublicKey [82])
       False ''confirmed'' (TOKEN_2022_PROGRAM_ID (demo_sdk True)) []
     = (Inr \<lparr>address = PublicKey [77, 82], mint = PublicKey [77], amount = 0\<rparr>, [])
   \<and> findProgramAddressSync (demo_sdk True)
       [Buffer_from ''extra-account-metas'', toBuffer (PublicKey [77])]
       (programId (program demo_service))
     = Inr (demo_extraAccountMetaListPDA, 255)
   \<and> (5::nat) * 10 ^ 9 < 2 ^ 53
   \<and> js_mul (Fin (of_nat 5)) (Fin (10 ^ 9)) = Fin (of_nat (5 * 10 ^ 9))
   \<and> transferTokens_v2 (demo_sdk True) demo_service (JStr ''M'') (JStr ''R'') (JNum (Fin 5)) []
     = (Inr (), [])
   \<and> transferTokens (demo_sdk True) demo_globals demo_service (JStr ''M'') (JStr ''R'')
       (JNum (Fin 5)) []
     = (Inr (),
        [[demo_transferInstruction
              \<lparr>keys := keys demo_transferInstruction @
                 [\<lparr>pubkey = TRANSFER_HOOK_PROGRAM_ID demo_globals, isSigner = False,
                   isWritable = False\<rparr>,
                  \<lparr>pubkey = demo_extraAccountMetaListPDA, isSigner = False,
                   isWritable = False\<rparr>]\<rparr>]])"
proof -
  have h1: "newPublicKey (demo_sdk True) (JStr ''M'') = Inr (PublicKey [77])"
    by (simp add: demo_defs io_defs Buffer_from_def wallet_publicKey_def)
  have h2: "newPublicKey (demo_sdk True) (JStr ''R'') = Inr (PublicKey [82])"
    by (simp add: demo_defs io_defs Buffer_from_def wallet_publicKey_def)
  have h3: "getOrCreateAssociatedTokenAccount (demo_sdk True) (connection demo_service)
       (payer (wallet (provider (program demo_service)))) (PublicKey [77])
       (wallet_publicKey (wallet (provider (program demo_service)))) False ''confirmed''
       (TOKEN_2022_PROGRAM_ID (demo_sdk True)) []
     = (Inr \<lparr>address = PublicKey [77, 66], mint = PublicKey [77], amount = 0\<rparr>, [])"
    by (simp add: demo_defs io_defs Buffer_from_def wallet_publicKey_def)
  have h4: "getOrCreateAssociatedTokenAccount (demo_sdk True) (connection demo_service)
       (payer (wallet (provider (program demo_service)))) (PublicKey [77]) (PublicKey [82])
       False ''confirmed'' (TOKEN_2022_PROGRAM_ID (demo_sdk True)) []
     = (Inr \<lparr>address = PublicKey [77, 82], mint = PublicKey [77], amount = 0\<rparr>, [])"
    by (simp add: demo_defs io_defs Buffer_from_def wallet_publicKey_def)
  have h5: "findProgramAddressSync (demo_sdk True)
       [Buffer_from ''extra-account-metas'', toBuffer (PublicKey [77])]
       (programId (program demo_service))
     = Inr (demo_extraAccountMetaListPDA, 255)"
    by (simp add: demo_defs io_defs Buffer_from_def wallet_publicKey_def)
  have small: "(5::nat) * 10 ^ 9 < 2 ^ 53"
    by simp
  note t = transfer_raw_amount [OF h1 h2 h3 h4, of "Fin 5" demo_globals]
  from t [THEN conjunct2, THEN conjunct2, rule_format, OF small]
  have exact: "js_mul (Fin (of_nat 5)) (Fin (10 ^ 9)) = Fin (of_nat (5 * 10 ^ 9))" .
  from t [THEN conjunct1]
  have v2: "transferTokens_v2 (demo_sdk True) demo_service (JStr ''M'') (JStr ''R'')
      (JNum (Fin 5)) [] = (Inr (), [])"
    by (simp add: demo_sdk_def demo_rpc_def io_defs)
  from t [THEN conjunct2, THEN conjunct1, rule_format, OF h5]
  have v1: "transferTokens (demo_sdk True) demo_globals demo_service (JStr ''M'')
      (JStr ''R'') (JNum (Fin 5)) []
     = (Inr (),
        [[demo_transferInstruction
              \<lparr>keys := keys demo_transferInstruction @
                 [\<lparr>pubkey = TRANSFER_HOOK_PROGRAM_ID demo_globals, isSigner = False,
                   isWritable = False\<rparr>,
                  \<lparr>pubkey = demo_extraAccountMetaListPDA, isSigner = False,
                   isWritable = False\<rparr>]\<rparr>]])"
    by (simp add: demo_defs io_defs wallet_publicKey_def)
  from h1 h2 h3 h4 h5 small exact v2 v1 show ?thesis
    by (intro conjI)
qed

section \<open>The transactions of an address\<close>




section \<open>The two variants of getTokenBalances\<close>

text \<open>
  C10. The \<open>getTokenBalances\<close> of the second server in the file equals the one of the
  first: for every SDK, service object and owner address, and from every world (so for
  every sequence of responses of the SDK), both resolve to the same list of balance
  entries or reject with the same error, and leave the same world.
\<close>

theorem getTokenBalances_v2_eq:
  "getTokenBalances_v2 sdk this ownerAddress = getTokenBalances sdk this ownerAddress"
  by (simp add: getTokenBalances_v2_def getTokenBalances_def getTokenBalances_loop_v2_eq)

end
